theory Spec2Isabelle
  imports Complex_Main
begin

unbundle bit_operations_syntax

section \<open>Python values\<close>

text \<open>
  The embedding follows \<^verbatim>\<open>monitor.py\<close>, class \<^verbatim>\<open>SystemMonitor\<close>.

  A Python \<^verbatim>\<open>float\<close> is modelled by a \<^typ>\<open>real\<close>: the arithmetic of the source is read
  as exact arithmetic, and neither the rounding error of double precision nor the values
  \<^verbatim>\<open>nan\<close> and \<^verbatim>\<open>inf\<close> are part of the model. A Python \<^verbatim>\<open>int\<close> is an \<^typ>\<open>int\<close>.

  A Python \<^verbatim>\<open>str\<close> is a \<^typ>\<open>string\<close>, one \<^typ>\<open>char\<close> per code point (all code points of the
  source's literals are below 256). An f-string that interpolates a number is kept as the
  list of its parts, \<open>Lit\<close> for literal text, \<open>NumF\<close> for an interpolated float and \<open>NumI\<close>
  for an interpolated int, because the decimal rendering of a float (\<^verbatim>\<open>repr\<close>) is not
  modelled.
\<close>

datatype exn =
    ZeroDivisionError
  | TypeError string
  | ValueError string
  | QueryError string

fun exn_str :: "exn \<Rightarrow> string" where
  "exn_str ZeroDivisionError = ''float division by zero''"
| "exn_str (TypeError s) = s"
| "exn_str (ValueError s) = s"
| "exn_str (QueryError s) = s"

datatype fpart = Lit string | NumF real | NumI int


datatype pyval =
    PyNone
  | PyInt int
  | PyFloat real
  | PyStr string
  | PyFmt "fpart list"

type_synonym dict = "string \<rightharpoonup> pyval"

subsection \<open>Built-in functions\<close>

text \<open>\<^verbatim>\<open>round(x, n)\<close>: the nearest multiple of \<open>10^-n\<close>, a tie going to the even one.\<close>

definition round_half_even :: "real \<Rightarrow> int" where
  "round_half_even y =
     (let f = \<lfloor>y\<rfloor>; d = y - of_int f
      in if d < 1 / 2 then f
         else if 1 / 2 < d then f + 1
         else if even f then f else f + 1)"

definition py_round :: "real \<Rightarrow> nat \<Rightarrow> real" where
  "py_round x n = of_int (round_half_even (x * 10 ^ n)) / 10 ^ n"

text \<open>\<^verbatim>\<open>int(x)\<close> of a float truncates towards zero.\<close>

definition py_int :: "real \<Rightarrow> int" where
  "py_int x = (if 0 \<le> x then \<lfloor>x\<rfloor> else \<lceil>x\<rceil>)"

text \<open>\<^verbatim>\<open>a / b\<close> raises \<^verbatim>\<open>ZeroDivisionError\<close> when the divisor is zero.\<close>

definition py_truediv :: "real \<Rightarrow> real \<Rightarrow> exn + real" where
  "py_truediv a b = (if b = 0 then Inl ZeroDivisionError else Inr (a / b))"

text \<open>
  \<^verbatim>\<open>random.uniform(a, b)\<close> is \<^verbatim>\<open>a + (b - a) * random()\<close>; the draw \<open>u\<close> of \<^verbatim>\<open>random()\<close>,
  a number of the interval \<open>[0, 1)\<close>, is an input of the model.
\<close>

definition uniform :: "real \<Rightarrow> real \<Rightarrow> real \<Rightarrow> real" where
  "uniform a b u = a + (b - a) * u"

definition unit_draw :: "real \<Rightarrow> bool" where
  "unit_draw u \<longleftrightarrow> 0 \<le> u \<and> u < 1"

text \<open>
  \<^verbatim>\<open>float(v)\<close> for the values a snapshot holds. The strings of a snapshot (platform names,
  time stamps, formatted indicators) do not spell numbers, so \<^verbatim>\<open>float\<close> of a string is the
  \<^verbatim>\<open>ValueError\<close>.
\<close>

fun py_float :: "pyval \<Rightarrow> exn + real" where
  "py_float (PyFloat x) = Inr x"
| "py_float (PyInt i) = Inr (of_int i)"
| "py_float PyNone = Inl (TypeError ''float() argument must be a string or a real number'')"
| "py_float (PyStr s) = Inl (ValueError ''could not convert string to float'')"
| "py_float (PyFmt ps) = Inl (ValueError ''could not convert string to float'')"

text \<open>\<^verbatim>\<open>hex(n)\<close>, \<^verbatim>\<open>s.upper()\<close> and the slice \<^verbatim>\<open>s[2:]\<close> (which is \<^const>\<open>drop\<close>).\<close>

fun hex_digits :: "nat \<Rightarrow> string" where
  "hex_digits n =
     (if n < 16 then [''0123456789abcdef'' ! n]
      else hex_digits (n div 16) @ [''0123456789abcdef'' ! (n mod 16)])"

declare hex_digits.simps [simp del]

definition py_hex :: "int \<Rightarrow> string" where
  "py_hex n = (if n < 0 then ''-0x'' @ hex_digits (nat (- n)) else ''0x'' @ hex_digits (nat n))"

definition char_upper :: "char \<Rightarrow> char" where
  "char_upper c =
     (let n = (of_char c :: nat)
      in if 97 \<le> n \<and> n \<le> 122 then char_of (n - 32) else c)"

definition upper :: "string \<Rightarrow> string" where
  "upper s = map char_upper s"

section \<open>The collector and what it reads\<close>

text \<open>The named tuples of psutil that the rate stage reads.\<close>

record sdiskio =
  read_bytes :: int
  write_bytes :: int

record snetio =
  bytes_sent :: int
  bytes_recv :: int
  errin :: int
  errout :: int

text \<open>The instance attributes of \<^verbatim>\<open>SystemMonitor\<close>.\<close>

record SystemMonitor =
  last_net_io :: snetio
  last_disk_io :: sdiskio
  last_call_time :: real
  system_boot_time :: string
  system_info :: dict

text \<open>
  What the rate stage observes during one call: the outcome of each query, in the order the
  source makes them (a query either returns or raises), and the draw of the random source.
\<close>

record io_queries =
  disk_io_counters :: "exn + sdiskio"
  net_io_counters :: "exn + snetio"
  net_connections :: "exn + nat"
  disk_partitions :: "exn + nat"
  latency_draw :: real

subsection \<open>\<^verbatim>\<open>_get_io_data\<close>\<close>

text \<open>
  The expression
  \<^verbatim>\<open>round((bytes_d / time_diff) / (1024**2), 2) if time_diff > 0 else 0.0\<close>,
  which the source writes out once for each of the four counters.
\<close>

definition rate_mb :: "int \<Rightarrow> real \<Rightarrow> exn + real" where
  "rate_mb bytes_d time_diff =
     (if time_diff > 0
      then (case py_truediv (of_int bytes_d) time_diff of
              Inl e \<Rightarrow> Inl e
            | Inr q \<Rightarrow> Inr (py_round (q / (1024 ^ 2)) 2))
      else Inr 0)"

definition io_dict :: "real \<Rightarrow> real \<Rightarrow> real \<Rightarrow> real \<Rightarrow> nat \<Rightarrow> nat \<Rightarrow> snetio \<Rightarrow> real \<Rightarrow> dict" where
  "io_dict disk_read_rate_mb disk_write_rate_mb net_sent_rate_mb net_recv_rate_mb
           conns parts current_net_io u =
     [''Disk Read Rate (MB/s)'' \<mapsto> PyFloat disk_read_rate_mb,
      ''Disk Write Rate (MB/s)'' \<mapsto> PyFloat disk_write_rate_mb,
      ''Net Sent (MB/s)'' \<mapsto> PyFloat net_sent_rate_mb,
      ''Net Received (MB/s)'' \<mapsto> PyFloat net_recv_rate_mb,
      ''Network Total Connections'' \<mapsto> PyInt (int conns),
      ''Disk Total Partitions'' \<mapsto> PyInt (int parts),
      ''Network Packet Errors'' \<mapsto> PyInt (errin current_net_io + errout current_net_io),
      ''Disk I/O Latency (Sim/ms)'' \<mapsto>
         PyFloat (py_round (uniform 2 20 u *
                    (if disk_read_rate_mb + disk_write_rate_mb > 0 then 1 else 0)) 2)]"

definition get_io_data ::
  "io_queries \<Rightarrow> real \<Rightarrow> SystemMonitor \<Rightarrow> (exn + dict) \<times> SystemMonitor" where
  "get_io_data q time_diff self =
     (case disk_io_counters q of
        Inl e \<Rightarrow> (Inl e, self)
      | Inr current_disk_io \<Rightarrow>
     (let read_bytes_d = read_bytes current_disk_io - read_bytes (last_disk_io self);
          write_bytes_d = write_bytes current_disk_io - write_bytes (last_disk_io self)
      in case rate_mb read_bytes_d time_diff of
        Inl e \<Rightarrow> (Inl e, self)
      | Inr disk_read_rate_mb \<Rightarrow>
     (case rate_mb write_bytes_d time_diff of
        Inl e \<Rightarrow> (Inl e, self)
      | Inr disk_write_rate_mb \<Rightarrow>
     (let self1 = self\<lparr>last_disk_io := current_disk_io\<rparr>
      in case net_io_counters q of
        Inl e \<Rightarrow> (Inl e, self1)
      | Inr current_net_io \<Rightarrow>
     (let net_sent_bytes = bytes_sent current_net_io - bytes_sent (last_net_io self1);
          net_recv_bytes = bytes_recv current_net_io - bytes_recv (last_net_io self1)
      in case rate_mb net_sent_bytes time_diff of
        Inl e \<Rightarrow> (Inl e, self1)
      | Inr net_sent_rate_mb \<Rightarrow>
     (case rate_mb net_recv_bytes time_diff of
        Inl e \<Rightarrow> (Inl e, self1)
      | Inr net_recv_rate_mb \<Rightarrow>
     (let self2 = self1\<lparr>last_net_io := current_net_io\<rparr>
      in case net_connections q of
        Inl e \<Rightarrow> (Inl e, self2)
      | Inr conns \<Rightarrow>
     (case disk_partitions q of
        Inl e \<Rightarrow> (Inl e, self2)
      | Inr parts \<Rightarrow>
        (Inr (io_dict disk_read_rate_mb disk_write_rate_mb net_sent_rate_mb net_recv_rate_mb
                conns parts current_net_io (latency_draw q)),
         self2)))))))))"

subsection \<open>\<^verbatim>\<open>_get_cpu_data\<close> and \<^verbatim>\<open>_get_memory_data\<close>\<close>

text \<open>
  These two stages change nothing in the collector, so the queries of each are taken
  together: either all of them return, with the readings below, or the first one that
  raises ends the stage. \<open>None\<close> stands for a reading the platform does not have
  (\<^verbatim>\<open>psutil.cpu_freq()\<close> or \<^verbatim>\<open>psutil.cpu_count()\<close> returning \<^verbatim>\<open>None\<close>, a field for which
  \<^verbatim>\<open>hasattr\<close> is false).
\<close>

record cpu_reading =
  cpu_percent :: real
  cpu_freq_current :: "real option"
  cpu_count_logical :: "int option"
  cpu_count_physical :: "int option"
  cpu_times_user :: real
  cpu_times_system :: real
  cpu_times_idle :: real
  cpu_times_iowait :: "real option"

fun int_or_none :: "int option \<Rightarrow> pyval" where
  "int_or_none None = PyNone"
| "int_or_none (Some i) = PyInt i"

definition key_cpu_temp :: string where
  "key_cpu_temp = ''CPU Temp ('' @ [CHR 0xB0] @ ''C)''"

definition key_gpu_temp :: string where
  "key_gpu_temp = ''GPU Temp ('' @ [CHR 0xB0] @ ''C)''"

definition get_cpu_data :: "exn + cpu_reading \<Rightarrow> exn + dict" where
  "get_cpu_data q =
     (case q of
        Inl e \<Rightarrow> Inl e
      | Inr r \<Rightarrow> Inr
         [''CPU Usage (%)'' \<mapsto> PyFloat (cpu_percent r),
          ''CPU Freq (GHz)'' \<mapsto>
             PyFloat (case cpu_freq_current r of
                        Some c \<Rightarrow> py_round (c / 1000) 2
                      | None \<Rightarrow> 0),
          ''Logical Cores'' \<mapsto> int_or_none (cpu_count_logical r),
          ''Physical Cores'' \<mapsto> int_or_none (cpu_count_physical r),
          ''CPU User Time (%)'' \<mapsto> PyFloat (cpu_times_user r),
          ''CPU System Time (%)'' \<mapsto> PyFloat (cpu_times_system r),
          ''CPU Idle Time (%)'' \<mapsto> PyFloat (cpu_times_idle r),
          ''CPU Iowait Time (%)'' \<mapsto>
             PyFloat (case cpu_times_iowait r of Some w \<Rightarrow> w | None \<Rightarrow> 0)])"

record mem_reading =
  vm_percent :: real
  vm_used :: int
  vm_available :: int
  vm_cached :: "int option"
  vm_shared :: "int option"
  swap_percent :: real
  swap_used :: int

definition get_memory_data :: "exn + mem_reading \<Rightarrow> exn + dict" where
  "get_memory_data q =
     (case q of
        Inl e \<Rightarrow> Inl e
      | Inr r \<Rightarrow> Inr
         [''Memory Usage (%)'' \<mapsto> PyFloat (vm_percent r),
          ''Used Memory (GB)'' \<mapsto> PyFloat (py_round (of_int (vm_used r) / (1024 ^ 3)) 2),
          ''Available Memory (GB)'' \<mapsto>
             PyFloat (py_round (of_int (vm_available r) / (1024 ^ 3)) 2),
          ''Cached Memory (GB)'' \<mapsto>
             PyFloat (case vm_cached r of
                        Some c \<Rightarrow> py_round (of_int c / (1024 ^ 3)) 2
                      | None \<Rightarrow> 0),
          ''Swap Usage (%)'' \<mapsto> PyFloat (swap_percent r),
          ''Used Swap (GB)'' \<mapsto> PyFloat (py_round (of_int (swap_used r) / (1024 ^ 3)) 2),
          ''Shared Memory (GB)'' \<mapsto>
             PyFloat (case vm_shared r of
                        Some c \<Rightarrow> py_round (of_int c / (1024 ^ 3)) 2
                      | None \<Rightarrow> 0)])"

subsection \<open>\<^verbatim>\<open>_get_gpu_data\<close>\<close>

text \<open>
  \<open>NotInstalled\<close> is the module-level \<^verbatim>\<open>GPUtil = None\<close> after a failed import;
  \<open>Installed r\<close> carries the outcome of \<^verbatim>\<open>GPUtil.getGPUs()\<close>. Whatever is raised inside
  the \<^verbatim>\<open>try\<close> is swallowed by \<^verbatim>\<open>except Exception: pass\<close>. The three fields read of a
  device are numbers.
\<close>

record gpu =
  load :: real
  memoryUsed :: real
  temperature :: real

datatype gputil = NotInstalled | Installed "exn + gpu list"

record gpu_queries =
  GPUtil :: gputil
  gpu_load_draw :: real
  gpu_temp_draw :: real

definition get_gpu_data :: "gpu_queries \<Rightarrow> dict" where
  "get_gpu_data q =
     (let gpu_data0 = [''GPU Usage (%)'' \<mapsto> PyFloat 0,
                       ''GPU Memory (GB)'' \<mapsto> PyFloat 0,
                       key_gpu_temp \<mapsto> PyFloat 0];
          gpu_data1 =
            (case GPUtil q of
               NotInstalled \<Rightarrow> gpu_data0
             | Installed (Inl e) \<Rightarrow> gpu_data0
             | Installed (Inr []) \<Rightarrow> gpu_data0
             | Installed (Inr (g # gs)) \<Rightarrow>
                 gpu_data0(''GPU Usage (%)'' \<mapsto> PyFloat (py_round (load g * 100) 2),
                           ''GPU Memory (GB)'' \<mapsto> PyFloat (py_round (memoryUsed g / 1024) 2),
                           key_gpu_temp \<mapsto> PyFloat (py_round (temperature g) 1)))
      in if gpu_data1 ''GPU Usage (%)'' = Some (PyFloat 0)
         then gpu_data1(''GPU Usage (%)'' \<mapsto>
                          PyFloat (py_round (uniform 0.1 5.0 (gpu_load_draw q)) 2),
                        key_gpu_temp \<mapsto>
                          PyFloat (py_round (uniform 30 45 (gpu_temp_draw q)) 1))
         else gpu_data1)"

subsection \<open>\<^verbatim>\<open>_get_sensor_data\<close>\<close>

text \<open>\<^verbatim>\<open>sub in s\<close> on strings.\<close>

fun contains :: "string \<Rightarrow> string \<Rightarrow> bool" where
  "contains sub [] = (sub = [])"
| "contains sub (c # cs) = (take (length sub) (c # cs) = sub \<or> contains sub cs)"

record shwtemp =
  label :: string
  current :: real

text \<open>
  \<^verbatim>\<open>psutil.sensors_temperatures()\<close> is a dict from a sensor name to its entries; of a fan
  only \<^verbatim>\<open>fan.percent\<close> is read, which may be \<^verbatim>\<open>None\<close>. \<^verbatim>\<open>psutil.sensors_fans()\<close> is a dict
  from a name to its fans, read through \<^verbatim>\<open>items()\<close>.
\<close>

record sensor_queries =
  sensors_temperatures :: "exn + (string \<rightharpoonup> shwtemp list)"
  sensors_fans :: "exn + (string \<times> real option list) list"
  cpu_temp_draw :: real
  fan_draw :: real

definition get_sensor_data :: "sensor_queries \<Rightarrow> exn + dict" where
  "get_sensor_data q =
     (case sensors_temperatures q of
        Inl e \<Rightarrow> Inl e
      | Inr temps \<Rightarrow>
     (let cpu_temp =
            (case temps ''coretemp'' of
               Some entries \<Rightarrow>
                 foldl (\<lambda>cpu_temp entry.
                          if contains ''CPU'' (label entry) \<or> contains ''Core'' (label entry)
                          then max cpu_temp (current entry) else cpu_temp) 0 entries
             | None \<Rightarrow>
                (case temps ''cpu_thermal'' of
                   Some entries \<Rightarrow>
                     foldl (\<lambda>cpu_temp entry. max cpu_temp (current entry)) 0 entries
                 | None \<Rightarrow> 0))
      in case sensors_fans q of
        Inl e \<Rightarrow> Inl e
      | Inr fans \<Rightarrow>
     (let fan_speed_percent =
            foldl (\<lambda>acc fan_list.
                     foldl (\<lambda>fan_speed_percent fan.
                              case fan of
                                Some p \<Rightarrow> max fan_speed_percent p
                              | None \<Rightarrow> fan_speed_percent) acc (snd fan_list)) 0 fans
      in Inr
         [key_cpu_temp \<mapsto>
            PyFloat (if cpu_temp > 0 then py_round cpu_temp 1
                     else py_round (uniform 35 60 (cpu_temp_draw q)) 1),
          ''Fan Speed (%)'' \<mapsto>
            PyFloat (if fan_speed_percent > 0 then py_round fan_speed_percent 1
                     else py_round (uniform 30 60 (fan_draw q)) 1)])))"

subsection \<open>\<^verbatim>\<open>_get_process_data\<close>\<close>

text \<open>
  An element of \<^verbatim>\<open>psutil.process_iter(['pid', 'name', 'cpu_percent'])\<close>: reading
  \<^verbatim>\<open>proc.info\<close> either gives the dict (\<open>Info\<close>) or raises one of \<^verbatim>\<open>NoSuchProcess\<close>,
  \<^verbatim>\<open>AccessDenied\<close>, \<^verbatim>\<open>ZombieProcess\<close> (\<open>Gone\<close>). A \<^verbatim>\<open>cpu_percent\<close> that psutil could not
  read is \<^verbatim>\<open>None\<close>.
\<close>

record proc_info =
  p_name :: string
  p_cpu_percent :: "real option"

datatype proc_entry = Info proc_info | Gone

record process_queries =
  pids :: "exn + nat"
  process_iter :: "exn + proc_entry list"
  time_time_uptime :: real
  boot_time :: "exn + real"
  users :: "exn + nat"
  num_fds :: "exn + int"

fun readable :: "proc_entry list \<Rightarrow> proc_info list" where
  "readable [] = []"
| "readable (Info p # ps) = p # readable ps"
| "readable (Gone # ps) = readable ps"

text \<open>
  \<^verbatim>\<open>sorted(processes, key=lambda p: p.get('cpu_percent', 0), reverse=True)\<close>: a stable
  sort, descending. Comparing \<^verbatim>\<open>None\<close> raises \<^verbatim>\<open>TypeError\<close>; a list of fewer than two
  elements is not compared at all.
\<close>

definition sorted_cpu :: "proc_info list \<Rightarrow> exn + proc_info list" where
  "sorted_cpu processes =
     (if 2 \<le> length processes \<and> (\<exists>p \<in> set processes. p_cpu_percent p = None)
      then Inl (TypeError ''less-than not supported between instances of NoneType and float'')
      else Inr (rev (sort_key (\<lambda>p. case p_cpu_percent p of Some c \<Rightarrow> c | None \<Rightarrow> 0)
                       (rev processes))))"

text \<open>
  The body of the \<^verbatim>\<open>try\<close>, as the value it leaves in the local variable
  \<^verbatim>\<open>top_cpu_proc\<close>: \<open>None\<close> when the assignment is not reached, also when an exception
  ends the \<^verbatim>\<open>try\<close> (the handler only logs a warning).
\<close>

definition top_cpu_proc_assigned :: "exn + proc_entry list \<Rightarrow> pyval option" where
  "top_cpu_proc_assigned it =
     (case it of
        Inl e \<Rightarrow> None
      | Inr entries \<Rightarrow>
     (let processes = readable entries
      in if processes = [] then None
         else (case sorted_cpu processes of
                 Inl e \<Rightarrow> None
               | Inr [] \<Rightarrow> None
               | Inr (p # ps) \<Rightarrow>
                  (case p_cpu_percent p of
                     None \<Rightarrow> None
                   | Some c \<Rightarrow>
                       if c > 0
                       then Some (PyFmt [Lit (p_name p), Lit '' ('', NumF c, Lit ''%)''])
                       else None))))"

text \<open>
  The returned dict reads the variable \<^verbatim>\<open>top_cpu_process\<close>, which is assigned once, to
  \<^verbatim>\<open>"N/A"\<close>; the \<^verbatim>\<open>try\<close> assigns to another variable, \<^verbatim>\<open>top_cpu_proc\<close>.
\<close>

definition get_process_data :: "process_queries \<Rightarrow> exn + dict" where
  "get_process_data q =
     (case pids q of
        Inl e \<Rightarrow> Inl e
      | Inr running_processes \<Rightarrow>
     (let top_cpu_process = PyStr ''N/A'';
          top_cpu_proc = top_cpu_proc_assigned (process_iter q)
      in case boot_time q of
        Inl e \<Rightarrow> Inl e
      | Inr boot \<Rightarrow>
     (case users q of
        Inl e \<Rightarrow> Inl e
      | Inr n_users \<Rightarrow>
     (case num_fds q of
        Inl e \<Rightarrow> Inl e
      | Inr fds \<Rightarrow> Inr
         [''Running Processes'' \<mapsto> PyInt (int running_processes),
          ''Top CPU Process'' \<mapsto> top_cpu_process,
          ''System Uptime (h)'' \<mapsto> PyFloat (py_round ((time_time_uptime q - boot) / 3600) 2),
          ''Login Users'' \<mapsto> PyInt (int n_users),
          ''Open File Descriptors (Sim)'' \<mapsto> PyInt fds]))))"

subsection \<open>\<^verbatim>\<open>_calculate_conceptual_flux_metrics\<close>\<close>

text \<open>\<^verbatim>\<open>float(data.get(k, 0.0))\<close>.\<close>

definition get_float :: "dict \<Rightarrow> string \<Rightarrow> exn + real" where
  "get_float data k = py_float (case data k of None \<Rightarrow> PyFloat 0 | Some v \<Rightarrow> v)"

text \<open>
  \<^verbatim>\<open>data.get('Network Packet Errors', 0)\<close> as an operand of the arithmetic of the last
  indicator: a number, or a \<^verbatim>\<open>TypeError\<close>.
\<close>

definition get_packet_errors :: "dict \<Rightarrow> exn + real" where
  "get_packet_errors data =
     (case data ''Network Packet Errors'' of
        None \<Rightarrow> Inr 0
      | Some (PyInt i) \<Rightarrow> Inr (of_int i)
      | Some (PyFloat x) \<Rightarrow> Inr x
      | Some v \<Rightarrow> Inl (TypeError ''unsupported operand type(s)''))"

definition try_bind :: "exn + 'a \<Rightarrow> ('a \<Rightarrow> exn + 'b) \<Rightarrow> exn + 'b" where
  "try_bind r f = (case r of Inl e \<Rightarrow> Inl e | Inr x \<Rightarrow> f x)"

text \<open>The three draws of \<^verbatim>\<open>random.randint\<close>, in the order of the source.\<close>

record flux_draws =
  randint_100_500 :: int
  randint_1000_100000 :: int
  randint_10000_50000 :: int

text \<open>
  \<^verbatim>\<open>max(0, min(100, integrity))\<close> and \<^verbatim>\<open>min(100, x)\<close> return the int bound itself when the
  float does not win the comparison, and \<^verbatim>\<open>round\<close> of an int is an int.
\<close>

definition clamp_0_100 :: "real \<Rightarrow> fpart" where
  "clamp_0_100 integrity =
     (if integrity < 100
      then (if integrity > 0 then NumF (py_round integrity 2) else NumI 0)
      else NumI 100)"

definition min_100 :: "real \<Rightarrow> fpart" where
  "min_100 x = (if x < 100 then NumF (py_round x 2) else NumI 100)"

definition hex_flow :: "real \<Rightarrow> real \<Rightarrow> real \<Rightarrow> string" where
  "hex_flow active_load total_io temp_c =
     (let hex_flow_magnitude = py_int ((active_load + total_io) * 1000000 + temp_c * 1000)
      in ''0x'' @ upper (drop 2 (py_hex (hex_flow_magnitude AND 0xFFFFFFFFFF))))"

definition calculate_conceptual_flux_metrics :: "dict \<Rightarrow> flux_draws \<Rightarrow> exn + dict" where
  "calculate_conceptual_flux_metrics data r =
     try_bind (get_float data ''CPU Usage (%)'') (\<lambda>cpu_u.
     try_bind (get_float data ''Memory Usage (%)'') (\<lambda>mem_u.
     try_bind (get_float data ''GPU Usage (%)'') (\<lambda>gpu_u.
     try_bind (get_float data key_cpu_temp) (\<lambda>temp_c.
     try_bind (get_float data ''Disk Read Rate (MB/s)'') (\<lambda>disk_r.
     try_bind (get_float data ''Disk Write Rate (MB/s)'') (\<lambda>disk_w.
     try_bind (get_float data ''Net Sent (MB/s)'') (\<lambda>net_s.
     try_bind (get_float data ''Net Received (MB/s)'') (\<lambda>net_r.
     try_bind (get_float data ''CPU Freq (GHz)'') (\<lambda>cpu_freq.
     (let total_io = disk_r + disk_w + net_s + net_r;
          active_load = cpu_u + mem_u + gpu_u;
          integrity = 100 - (active_load * 0.2 + temp_c * 0.5 + total_io * 0.1);
          saturation = total_io * 5 + active_load * 0.5
      in try_bind (get_packet_errors data) (\<lambda>packet_errors. Inr (data
          (''Energetic Flux (Sim)'' \<mapsto>
              PyFmt [NumF (py_round (active_load / 3 + temp_c / 10) 2), Lit '' J/s''],
           ''Transistor State Change Rate (Sim)'' \<mapsto>
              PyFmt [NumI (py_int (cpu_u * 1000 + cpu_freq * 10000
                                    + of_int (randint_100_500 r))), Lit ''/s''],
           ''Circuitry Integrity (Sim)'' \<mapsto> PyFmt [clamp_0_100 integrity, Lit ''%''],
           ''Binary Data Byte Transit (Sim)'' \<mapsto>
              PyFmt [NumI (py_int (total_io * 1024 * 1024 * 8
                                    + of_int (randint_1000_100000 r))), Lit '' B/s''],
           ''Hexadecimal Energy Flow (Sim)'' \<mapsto> PyStr (hex_flow active_load total_io temp_c),
           ''Software-Hardware I/O Saturation (Sim)'' \<mapsto> PyFmt [min_100 saturation, Lit ''%''],
           ''Electrical Controlled Pulses (Sim)'' \<mapsto>
              PyFmt [NumI (py_int (cpu_freq * 10 ^ 9
                                    + of_int (randint_10000_50000 r))), Lit ''/s''],
           ''Unwanted Transit Purity Check (Sim)'' \<mapsto>
              PyFmt [NumF (py_round (100 - (packet_errors * 10 + (active_load / 100) * 5)) 2),
                     Lit ''%''])))))))))))))"

subsection \<open>\<^verbatim>\<open>__init__\<close> and \<^verbatim>\<open>_get_static_system_info\<close>\<close>

record static_reading =
  platform_platform :: string
  platform_machine :: string
  platform_processor :: string
  platform_python_version :: string
  vm_total :: int

definition get_static_system_info :: "exn + static_reading \<Rightarrow> string \<Rightarrow> exn + dict" where
  "get_static_system_info q boot =
     (case q of
        Inl e \<Rightarrow> Inl e
      | Inr r \<Rightarrow> Inr
         [''Operating System'' \<mapsto> PyStr (platform_platform r),
          ''System Architecture'' \<mapsto> PyStr (platform_machine r),
          ''CPU Model (Sim)'' \<mapsto>
             PyStr (if platform_processor r = [] then ''Unknown Processor''
                    else platform_processor r),
          ''Python Version'' \<mapsto> PyStr (platform_python_version r),
          ''Total RAM (GB)'' \<mapsto> PyFloat (py_round (of_int (vm_total r) / (1024 ^ 3)) 2),
          ''Boot Time'' \<mapsto> PyStr boot])"

text \<open>
  \<open>init_boot_time\<close> is the outcome of
  \<^verbatim>\<open>datetime.fromtimestamp(psutil.boot_time()).strftime("%Y-%m-%d %H:%M:%S")\<close>.
\<close>

record init_queries =
  init_net_io_counters :: "exn + snetio"
  init_disk_io_counters :: "exn + sdiskio"
  init_time_time :: real
  init_boot_time :: "exn + string"
  init_static :: "exn + static_reading"

definition SystemMonitor_init :: "init_queries \<Rightarrow> exn + SystemMonitor" where
  "SystemMonitor_init q =
     try_bind (init_net_io_counters q) (\<lambda>net.
     try_bind (init_disk_io_counters q) (\<lambda>disk.
     try_bind (init_boot_time q) (\<lambda>boot.
     try_bind (get_static_system_info (init_static q) boot) (\<lambda>info.
       Inr \<lparr>last_net_io = net, last_disk_io = disk, last_call_time = init_time_time q,
            system_boot_time = boot, system_info = info\<rparr>))))"

subsection \<open>\<^verbatim>\<open>get_detailed_system_data\<close>\<close>

text \<open>Everything one sampling call observes.\<close>

record os_state =
  time_time :: real
  datetime_now :: string
  cpu_q :: "exn + cpu_reading"
  mem_q :: "exn + mem_reading"
  gpu_q :: gpu_queries
  sensor_q :: sensor_queries
  io_q :: io_queries
  process_q :: process_queries
  flux_q :: flux_draws

text \<open>
  The body of the \<^verbatim>\<open>try\<close>: the dict it returns or the exception that leaves it, and the
  collector as the body leaves it.
\<close>

definition try_body ::
  "os_state \<Rightarrow> real \<Rightarrow> real \<Rightarrow> SystemMonitor \<Rightarrow> (exn + dict) \<times> SystemMonitor" where
  "try_body os current_time time_diff self =
     (let data0 = Map.empty ++ system_info self;
          data1 = data0(''Timestamp'' \<mapsto> PyStr (datetime_now os))
      in case get_cpu_data (cpu_q os) of
        Inl e \<Rightarrow> (Inl e, self)
      | Inr cpu \<Rightarrow>
     (let data2 = data1 ++ cpu
      in case get_memory_data (mem_q os) of
        Inl e \<Rightarrow> (Inl e, self)
      | Inr mem \<Rightarrow>
     (let data3 = data2 ++ mem;
          data4 = data3 ++ get_gpu_data (gpu_q os)
      in case get_sensor_data (sensor_q os) of
        Inl e \<Rightarrow> (Inl e, self)
      | Inr sens \<Rightarrow>
     (let data5 = data4 ++ sens
      in case get_io_data (io_q os) time_diff self of
        (Inl e, self1) \<Rightarrow> (Inl e, self1)
      | (Inr io, self1) \<Rightarrow>
     (let data6 = data5 ++ io;
          self2 = self1\<lparr>last_call_time := current_time\<rparr>
      in case get_process_data (process_q os) of
        Inl e \<Rightarrow> (Inl e, self2)
      | Inr procs \<Rightarrow>
     (let data7 = data6 ++ procs
      in case calculate_conceptual_flux_metrics data7 (flux_q os) of
        Inl e \<Rightarrow> (Inl e, self2)
      | Inr data8 \<Rightarrow> (Inr data8, self2)))))))"

definition get_detailed_system_data :: "os_state \<Rightarrow> SystemMonitor \<Rightarrow> dict \<times> SystemMonitor" where
  "get_detailed_system_data os self =
     (let current_time = time_time os;
          time_diff = current_time - last_call_time self
      in case try_body os current_time time_diff self of
        (Inr data, self') \<Rightarrow> (data, self')
      | (Inl e, self') \<Rightarrow>
          ([''Error'' \<mapsto> PyStr (''Failed to collect data: '' @ exn_str e)], self'))"

text \<open>The collector after a sequence of sampling calls.\<close>

fun calls :: "os_state list \<Rightarrow> SystemMonitor \<Rightarrow> SystemMonitor" where
  "calls [] self = self"
| "calls (os # oss) self = calls oss (snd (get_detailed_system_data os self))"

section \<open>The words of the specification\<close>

text \<open>The attribute names of a snapshot, by the stage that provides them.\<close>

definition static_keys :: "string set" where
  "static_keys =
     {''Operating System'', ''System Architecture'', ''CPU Model (Sim)'', ''Python Version'',
      ''Total RAM (GB)'', ''Boot Time''}"

definition cpu_keys :: "string set" where
  "cpu_keys =
     {''CPU Usage (%)'', ''CPU Freq (GHz)'', ''Logical Cores'', ''Physical Cores'',
      ''CPU User Time (%)'', ''CPU System Time (%)'', ''CPU Idle Time (%)'',
      ''CPU Iowait Time (%)''}"

definition mem_keys :: "string set" where
  "mem_keys =
     {''Memory Usage (%)'', ''Used Memory (GB)'', ''Available Memory (GB)'',
      ''Cached Memory (GB)'', ''Swap Usage (%)'', ''Used Swap (GB)'', ''Shared Memory (GB)''}"

definition gpu_keys :: "string set" where
  "gpu_keys = {''GPU Usage (%)'', ''GPU Memory (GB)'', key_gpu_temp}"

definition sensor_keys :: "string set" where
  "sensor_keys = {key_cpu_temp, ''Fan Speed (%)''}"

definition io_keys :: "string set" where
  "io_keys =
     {''Disk Read Rate (MB/s)'', ''Disk Write Rate (MB/s)'', ''Net Sent (MB/s)'',
      ''Net Received (MB/s)'', ''Network Total Connections'', ''Disk Total Partitions'',
      ''Network Packet Errors'', ''Disk I/O Latency (Sim/ms)''}"

definition process_keys :: "string set" where
  "process_keys =
     {''Running Processes'', ''Top CPU Process'', ''System Uptime (h)'', ''Login Users'',
      ''Open File Descriptors (Sim)''}"

definition flux_keys :: "string set" where
  "flux_keys =
     {''Energetic Flux (Sim)'', ''Transistor State Change Rate (Sim)'',
      ''Circuitry Integrity (Sim)'', ''Binary Data Byte Transit (Sim)'',
      ''Hexadecimal Energy Flow (Sim)'', ''Software-Hardware I/O Saturation (Sim)'',
      ''Electrical Controlled Pulses (Sim)'', ''Unwanted Transit Purity Check (Sim)''}"

definition snapshot_keys :: "string set" where
  "snapshot_keys =
     static_keys \<union> {''Timestamp''} \<union> cpu_keys \<union> mem_keys \<union> gpu_keys \<union> sensor_keys
       \<union> io_keys \<union> process_keys \<union> flux_keys"

text \<open>
  A sub-stage raises when one of the queries whose exception leaves its stage raises. (The
  exceptions of \<^verbatim>\<open>GPUtil.getGPUs()\<close> and of the process enumeration are handled inside
  their stages.)
\<close>

definition raises_before_io :: "os_state \<Rightarrow> bool" where
  "raises_before_io os \<longleftrightarrow>
     isl (cpu_q os) \<or> isl (mem_q os) \<or> isl (sensors_temperatures (sensor_q os))
       \<or> isl (sensors_fans (sensor_q os))"

definition io_raises :: "io_queries \<Rightarrow> bool" where
  "io_raises q \<longleftrightarrow>
     isl (disk_io_counters q) \<or> isl (net_io_counters q) \<or> isl (net_connections q)
       \<or> isl (disk_partitions q)"

definition process_raises :: "process_queries \<Rightarrow> bool" where
  "process_raises q \<longleftrightarrow> isl (pids q) \<or> isl (boot_time q) \<or> isl (users q) \<or> isl (num_fds q)"

definition stage_raises :: "os_state \<Rightarrow> bool" where
  "stage_raises os \<longleftrightarrow>
     raises_before_io os \<or> io_raises (io_q os) \<or> process_raises (process_q os)"

text \<open>\<open>rate_MBps = (current - previous) / t / 2^20\<close>.\<close>

definition rate_MBps :: "int \<Rightarrow> int \<Rightarrow> real \<Rightarrow> real" where
  "rate_MBps current_cumulative previous_cumulative t =
     of_int (current_cumulative - previous_cumulative) / t / 2 ^ 20"

text \<open>A sampling call is successful when it returns a snapshot, not the error dict.\<close>

definition successful :: "dict \<Rightarrow> bool" where
  "successful d \<longleftrightarrow> d ''Error'' = None"





text \<open>The GPU interface is unavailable, or its first device reports zero usage.\<close>

definition gpu_unavailable_or_idle :: "gpu_queries \<Rightarrow> bool" where
  "gpu_unavailable_or_idle q =
     (case GPUtil q of
        NotInstalled \<Rightarrow> True
      | Installed (Inl e) \<Rightarrow> True
      | Installed (Inr []) \<Rightarrow> True
      | Installed (Inr (g # gs)) \<Rightarrow> load g = 0)"


section \<open>Concrete inputs\<close>

text \<open>
  A collector as \<^verbatim>\<open>__init__\<close> leaves it, with the baseline disk counters
  \<open>(read = 1_000_000, write = 500_000)\<close> taken at time \<open>0\<close>, and a sampling call at time
  \<open>1.0\<close> that finds the disk counters \<open>(read = 2_048_000 + 1_000_000, write = 500_000)\<close>,
  no GPU interface and no temperature or fan sensor.
\<close>

definition ex_init :: init_queries where
  "ex_init =
     \<lparr>init_net_io_counters = Inr \<lparr>bytes_sent = 0, bytes_recv = 0, errin = 0, errout = 0\<rparr>,
      init_disk_io_counters = Inr \<lparr>read_bytes = 1000000, write_bytes = 500000\<rparr>,
      init_time_time = 0,
      init_boot_time = Inr ''2024-01-01 00:00:00'',
      init_static = Inr \<lparr>platform_platform = ''Linux'', platform_machine = ''x86_64'',
                         platform_processor = '''', platform_python_version = ''3.11.4'',
                         vm_total = 17179869184\<rparr>\<rparr>"

definition ex_monitor :: SystemMonitor where
  "ex_monitor =
     \<lparr>last_net_io = \<lparr>bytes_sent = 0, bytes_recv = 0, errin = 0, errout = 0\<rparr>,
      last_disk_io = \<lparr>read_bytes = 1000000, write_bytes = 500000\<rparr>,
      last_call_time = 0,
      system_boot_time = ''2024-01-01 00:00:00'',
      system_info =
        [''Operating System'' \<mapsto> PyStr ''Linux'',
         ''System Architecture'' \<mapsto> PyStr ''x86_64'',
         ''CPU Model (Sim)'' \<mapsto> PyStr ''Unknown Processor'',
         ''Python Version'' \<mapsto> PyStr ''3.11.4'',
         ''Total RAM (GB)'' \<mapsto> PyFloat 16,
         ''Boot Time'' \<mapsto> PyStr ''2024-01-01 00:00:00'']\<rparr>"

definition ex_cpu :: cpu_reading where
  "ex_cpu =
     \<lparr>cpu_percent = 90, cpu_freq_current = Some 2400, cpu_count_logical = Some 8,
      cpu_count_physical = Some 4, cpu_times_user = 60, cpu_times_system = 30,
      cpu_times_idle = 10, cpu_times_iowait = None\<rparr>"

definition ex_mem :: mem_reading where
  "ex_mem =
     \<lparr>vm_percent = 85, vm_used = 14602888806, vm_available = 2576980378, vm_cached = None,
      vm_shared = None, swap_percent = 0, swap_used = 0\<rparr>"

definition ex_gpu :: gpu_queries where
  "ex_gpu = \<lparr>GPUtil = NotInstalled, gpu_load_draw = 1 / 2, gpu_temp_draw = 1 / 2\<rparr>"

definition ex_sensor :: sensor_queries where
  "ex_sensor =
     \<lparr>sensors_temperatures = Inr Map.empty, sensors_fans = Inr [],
      cpu_temp_draw = 1 / 2, fan_draw = 1 / 2\<rparr>"

definition ex_io :: io_queries where
  "ex_io =
     \<lparr>disk_io_counters = Inr \<lparr>read_bytes = 2048000 + 1000000, write_bytes = 500000\<rparr>,
      net_io_counters = Inr \<lparr>bytes_sent = 1048576, bytes_recv = 2097152,
                              errin = 0, errout = 0\<rparr>,
      net_connections = Inr 12,
      disk_partitions = Inr 3,
      latency_draw = 1 / 2\<rparr>"

definition ex_process :: process_queries where
  "ex_process =
     \<lparr>pids = Inr 3,
      process_iter = Inr [Info \<lparr>p_name = ''idle'', p_cpu_percent = Some 0\<rparr>,
                          Gone,
                          Info \<lparr>p_name = ''python'', p_cpu_percent = Some 12.5\<rparr>],
      time_time_uptime = 7201,
      boot_time = Inr 1,
      users = Inr 1,
      num_fds = Inr 7\<rparr>"

definition ex_flux :: flux_draws where
  "ex_flux = \<lparr>randint_100_500 = 100, randint_1000_100000 = 1000, randint_10000_50000 = 10000\<rparr>"

definition ex_os :: os_state where
  "ex_os =
     \<lparr>time_time = 1, datetime_now = ''2024-01-01 02:00:01'',
      cpu_q = Inr ex_cpu, mem_q = Inr ex_mem, gpu_q = ex_gpu, sensor_q = ex_sensor,
      io_q = ex_io, process_q = ex_process, flux_q = ex_flux\<rparr>"

text \<open>The same call, on a platform where \<^verbatim>\<open>psutil.Process().num_fds()\<close> raises.\<close>

definition ex_os_no_fds :: os_state where
  "ex_os_no_fds =
     ex_os\<lparr>process_q := ex_process\<lparr>num_fds := Inl (QueryError ''num_fds is not available'')\<rparr>\<rparr>"

text \<open>The same call, with the CPU queries raising.\<close>

definition ex_os_no_cpu :: os_state where
  "ex_os_no_cpu = ex_os\<lparr>cpu_q := Inl (QueryError ''cpu_percent failed'')\<rparr>"

text \<open>
  A later call, at time \<open>2.0\<close>, on a platform with a GPU under load, a \<^verbatim>\<open>coretemp\<close>
  sensor and a fan.
\<close>

definition ex_os_gpu :: os_state where
  "ex_os_gpu =
     ex_os\<lparr>time_time := 2,
           gpu_q := \<lparr>GPUtil = Installed (Inr [\<lparr>load = 0.42, memoryUsed = 2048,
                                                  temperature = 61.5\<rparr>]),
                      gpu_load_draw = 1 / 4, gpu_temp_draw = 1 / 4\<rparr>,
           sensor_q := \<lparr>sensors_temperatures =
                           Inr [''coretemp'' \<mapsto> [\<lparr>label = ''Core 0'', current = 52\<rparr>,
                                                  \<lparr>label = ''Package id 0'', current = 70\<rparr>]],
                         sensors_fans = Inr [(''thinkpad'', [Some 40, None])],
                         cpu_temp_draw = 1 / 4, fan_draw = 1 / 4\<rparr>\<rparr>"

text \<open>
  The same call after a disk has disappeared: \<^verbatim>\<open>psutil.disk_io_counters()\<close> sums over the
  disks that are present, so the total read count, \<open>475_712\<close>, is found below the stored
  \<open>1_000_000\<close>, while the total write count has grown from \<open>500_000\<close> to \<open>762_144\<close>. The
  read rate is negative, the write rate positive, their sum negative.
\<close>

definition ex_io_disk_removed :: io_queries where
  "ex_io_disk_removed =
     ex_io\<lparr>disk_io_counters := Inr \<lparr>read_bytes = 475712, write_bytes = 762144\<rparr>\<rparr>"

definition ex_os_disk_removed :: os_state where
  "ex_os_disk_removed = ex_os\<lparr>io_q := ex_io_disk_removed\<rparr>"



text \<open>The attribute \<open>k\<close> of what a stage returns; \<open>None\<close> when the stage raises.\<close>

fun attr :: "exn + dict \<Rightarrow> string \<Rightarrow> pyval option" where
  "attr (Inr d) k = d k"
| "attr (Inl e) k = None"

section \<open>Rounding\<close>

lemma round_half_even_bounds:
  "\<bar>of_int (round_half_even y) - y\<bar> \<le> 1 / 2"
  unfolding round_half_even_def Let_def by (auto simp: abs_le_iff)

lemma round_half_even_ge: "of_int k \<le> y \<Longrightarrow> k \<le> round_half_even y"
  unfolding round_half_even_def Let_def by (auto simp: le_floor_iff) linarith+

lemma round_half_even_le: "y \<le> of_int k \<Longrightarrow> round_half_even y \<le> k"
  unfolding round_half_even_def Let_def by (auto simp: floor_le_iff)

lemma round_half_even_of_int: "round_half_even (of_int k) = k"
  unfolding round_half_even_def Let_def by simp

lemma py_round_2_error: "\<bar>py_round x 2 - x\<bar> \<le> 1 / 200"
proof -
  have "\<bar>of_int (round_half_even (x * 100)) - x * 100\<bar> \<le> 1 / 2"
    by (rule round_half_even_bounds)
  then have "\<bar>(of_int (round_half_even (x * 100)) - x * 100) / 100\<bar> \<le> (1 / 2) / 100"
    by simp
  then show ?thesis
    by (simp add: py_round_def diff_divide_distrib)
qed

lemma py_round_ge: "of_int k / 10 ^ n \<le> x \<Longrightarrow> of_int k / 10 ^ n \<le> py_round x n"
proof -
  assume "of_int k / 10 ^ n \<le> x"
  then have "of_int k \<le> x * 10 ^ n" by (simp add: pos_divide_le_eq)
  then have "k \<le> round_half_even (x * 10 ^ n)" by (rule round_half_even_ge)
  then show ?thesis by (simp add: py_round_def divide_right_mono)
qed

lemma py_round_le: "x \<le> of_int k / 10 ^ n \<Longrightarrow> py_round x n \<le> of_int k / 10 ^ n"
proof -
  assume "x \<le> of_int k / 10 ^ n"
  then have "x * 10 ^ n \<le> of_int k" by (simp add: pos_le_divide_eq)
  then have "round_half_even (x * 10 ^ n) \<le> k" by (rule round_half_even_le)
  then show ?thesis by (simp add: py_round_def divide_right_mono)
qed

lemma py_round_of_int: "py_round (of_int k) n = of_int k"
proof -
  have "of_int k * (10::real) ^ n = of_int (k * 10 ^ n)" by simp
  then show ?thesis unfolding py_round_def by (simp only: round_half_even_of_int) simp
qed

lemma rate_mb_returns:
  "rate_mb b t = Inr (if t > 0 then py_round ((of_int b / t) / (1024 ^ 2)) 2 else 0)"
  by (simp add: rate_mb_def py_truediv_def)

lemma uniform_bounds:
  assumes "unit_draw u" and "a \<le> b"
  shows "a \<le> uniform a b u" and "uniform a b u \<le> b"
proof -
  from assms have u: "0 \<le> u" "u \<le> 1" and ab: "0 \<le> b - a"
    by (simp_all add: unit_draw_def)
  have "0 \<le> (b - a) * u" using ab u(1) by simp
  then show "a \<le> uniform a b u" by (simp add: uniform_def)
  have "(b - a) * u \<le> (b - a) * 1" using u(2) ab by (rule mult_left_mono)
  then show "uniform a b u \<le> b" by (simp add: uniform_def)
qed

lemma py_round_0: "py_round 0 n = 0"
  using py_round_of_int [of 0 n] by simp

section \<open>The rate stage\<close>

lemma get_io_data_returns:
  assumes "disk_io_counters q = Inr cd" "net_io_counters q = Inr cn"
    "net_connections q = Inr c" "disk_partitions q = Inr p"
  shows "get_io_data q t self =
    (Inr (io_dict
       (if t > 0 then py_round ((of_int (read_bytes cd - read_bytes (last_disk_io self)) / t)
                                  / (1024 ^ 2)) 2 else 0)
       (if t > 0 then py_round ((of_int (write_bytes cd - write_bytes (last_disk_io self)) / t)
                                  / (1024 ^ 2)) 2 else 0)
       (if t > 0 then py_round ((of_int (bytes_sent cn - bytes_sent (last_net_io self)) / t)
                                  / (1024 ^ 2)) 2 else 0)
       (if t > 0 then py_round ((of_int (bytes_recv cn - bytes_recv (last_net_io self)) / t)
                                  / (1024 ^ 2)) 2 else 0)
       c p cn (latency_draw q)),
     self\<lparr>last_disk_io := cd, last_net_io := cn\<rparr>)"
  using assms by (simp add: get_io_data_def rate_mb_returns Let_def)

lemma io_dict_rates:
  "io_dict a b c d e f g h ''Disk Read Rate (MB/s)'' = Some (PyFloat a)"
  "io_dict a b c d e f g h ''Disk Write Rate (MB/s)'' = Some (PyFloat b)"
  "io_dict a b c d e f g h ''Net Sent (MB/s)'' = Some (PyFloat c)"
  "io_dict a b c d e f g h ''Net Received (MB/s)'' = Some (PyFloat d)"
  by (simp_all add: io_dict_def)

lemma io_dict_latency:
  "io_dict a b c d e f g u ''Disk I/O Latency (Sim/ms)'' =
     Some (PyFloat (py_round (uniform 2 20 u * (if a + b > 0 then 1 else 0)) 2))"
  by (simp add: io_dict_def)

section \<open>What the stages return\<close>

lemma dom_get_cpu_data: "get_cpu_data q = Inr d \<Longrightarrow> dom d = cpu_keys"
  by (cases q) (clarsimp simp: get_cpu_data_def cpu_keys_def insert_commute)+

lemma dom_get_memory_data: "get_memory_data q = Inr d \<Longrightarrow> dom d = mem_keys"
  by (cases q) (clarsimp simp: get_memory_data_def mem_keys_def insert_commute)+

lemma dom_get_gpu_data: "dom (get_gpu_data q) = gpu_keys"
  by (simp add: get_gpu_data_def gpu_keys_def Let_def insert_commute split: gputil.splits sum.splits list.splits)

lemma dom_get_sensor_data: "get_sensor_data q = Inr d \<Longrightarrow> dom d = sensor_keys"
  by (clarsimp simp: get_sensor_data_def sensor_keys_def Let_def insert_commute split: sum.splits)

lemma dom_io_dict: "dom (io_dict a b c d e f g h) = io_keys"
  by (simp add: io_dict_def io_keys_def insert_commute)

lemma dom_get_process_data: "get_process_data q = Inr d \<Longrightarrow> dom d = process_keys"
  by (clarsimp simp: get_process_data_def process_keys_def Let_def insert_commute split: sum.splits)

lemma try_bind_Inr: "try_bind r f = Inr y \<longleftrightarrow> (\<exists>x. r = Inr x \<and> f x = Inr y)"
  by (auto simp: try_bind_def split: sum.splits)

lemma dom_flux: "calculate_conceptual_flux_metrics data r = Inr d \<Longrightarrow> dom d = dom data \<union> flux_keys"
  by (clarsimp simp: calculate_conceptual_flux_metrics_def try_bind_Inr Let_def flux_keys_def insert_commute)

lemma get_io_data_cases:
  "get_io_data q t self = (r, self') \<Longrightarrow>
     (\<exists>e. r = Inl e \<and> disk_io_counters q = Inl e \<and> self' = self)
   \<or> (\<exists>e cd. r = Inl e \<and> disk_io_counters q = Inr cd \<and> net_io_counters q = Inl e
         \<and> self' = self\<lparr>last_disk_io := cd\<rparr>)
   \<or> (\<exists>e cd cn. r = Inl e \<and> disk_io_counters q = Inr cd \<and> net_io_counters q = Inr cn
         \<and> (net_connections q = Inl e \<or> (\<not> isl (net_connections q) \<and> disk_partitions q = Inl e))
         \<and> self' = self\<lparr>last_disk_io := cd, last_net_io := cn\<rparr>)
   \<or> (\<exists>a b c d cd cn e f. r = Inr (io_dict a b c d e f cn (latency_draw q))
         \<and> disk_io_counters q = Inr cd \<and> net_io_counters q = Inr cn
         \<and> net_connections q = Inr e \<and> disk_partitions q = Inr f
         \<and> self' = self\<lparr>last_disk_io := cd, last_net_io := cn\<rparr>)"
  by (auto simp: get_io_data_def rate_mb_returns Let_def split: sum.splits)

lemma io_dict_packet_errors:
  "io_dict a b c d e f g h ''Network Packet Errors'' = Some (PyInt (errin g + errout g))"
  by (simp add: io_dict_def)

lemma get_io_data_Inr:
  assumes "get_io_data q t self = (Inr d, self')"
  shows "\<not> io_raises q \<and> dom d = io_keys
     \<and> (\<exists>x. d ''Disk Read Rate (MB/s)'' = Some (PyFloat x))
     \<and> (\<exists>x. d ''Disk Write Rate (MB/s)'' = Some (PyFloat x))
     \<and> (\<exists>x. d ''Net Sent (MB/s)'' = Some (PyFloat x))
     \<and> (\<exists>x. d ''Net Received (MB/s)'' = Some (PyFloat x))
     \<and> (\<exists>i. d ''Network Packet Errors'' = Some (PyInt i))"
proof -
  from get_io_data_cases [OF assms] obtain a b c da cd cn e f where
    d: "d = io_dict a b c da e f cn (latency_draw q)"
    and q: "disk_io_counters q = Inr cd" "net_io_counters q = Inr cn"
           "net_connections q = Inr e" "disk_partitions q = Inr f"
    by blast
  show ?thesis
    unfolding d by (simp add: io_raises_def q dom_io_dict io_dict_rates io_dict_packet_errors)
qed

lemma get_io_data_Inl:
  "get_io_data q t self = (Inl e, self') \<Longrightarrow> io_raises q \<and> last_call_time self' = last_call_time self
     \<and> system_info self' = system_info self
     \<and> (isl (disk_io_counters q) \<longrightarrow> self' = self)"
  by (drule get_io_data_cases) (auto simp: io_raises_def)

lemma get_io_data_total:
  "\<not> io_raises q \<Longrightarrow> \<exists>d. fst (get_io_data q t self) = Inr d"
  by (cases "disk_io_counters q"; cases "net_io_counters q"; cases "net_connections q"; cases "disk_partitions q")
     (simp_all add: io_raises_def get_io_data_returns)

lemma get_io_data_raises:
  "io_raises q \<Longrightarrow> \<exists>e. fst (get_io_data q t self) = Inl e"
  by (auto simp: io_raises_def get_io_data_def rate_mb_returns Let_def split: sum.splits)

lemma get_io_data_system_info:
  "system_info (snd (get_io_data q t self)) = system_info self"
  by (simp add: get_io_data_def rate_mb_returns Let_def split: sum.splits)

lemma get_cpu_data_Inr:
  "get_cpu_data q = Inr d \<Longrightarrow> \<not> isl q
     \<and> (\<exists>x. d ''CPU Usage (%)'' = Some (PyFloat x))
     \<and> (\<exists>x. d ''CPU Freq (GHz)'' = Some (PyFloat x))"
  by (cases q) (clarsimp simp: get_cpu_data_def)+

lemma get_memory_data_Inr:
  "get_memory_data q = Inr d \<Longrightarrow> \<not> isl q \<and> (\<exists>x. d ''Memory Usage (%)'' = Some (PyFloat x))"
  by (cases q) (clarsimp simp: get_memory_data_def)+

lemma key_temps_distinct: "key_cpu_temp \<noteq> key_gpu_temp" "key_gpu_temp \<noteq> key_cpu_temp"
  by (simp_all add: key_cpu_temp_def key_gpu_temp_def)

lemma get_gpu_data_usage: "\<exists>x. get_gpu_data q ''GPU Usage (%)'' = Some (PyFloat x)"
  by (simp add: get_gpu_data_def Let_def key_gpu_temp_def split: gputil.splits sum.splits list.splits)

lemma get_sensor_data_Inr:
  "get_sensor_data q = Inr d \<Longrightarrow> \<not> isl (sensors_temperatures q) \<and> \<not> isl (sensors_fans q)
      \<and> (\<exists>x. d key_cpu_temp = Some (PyFloat x))"
  by (clarsimp simp: get_sensor_data_def Let_def key_cpu_temp_def split: sum.splits)

lemma get_process_data_Inr:
  "get_process_data q = Inr d \<Longrightarrow> \<not> process_raises q \<and> d ''Top CPU Process'' = Some (PyStr ''N/A'')"
  by (clarsimp simp: get_process_data_def process_raises_def Let_def split: sum.splits)

lemma get_cpu_data_Inl: "get_cpu_data q = Inl e \<longleftrightarrow> q = Inl e"
  by (cases q) (simp_all add: get_cpu_data_def)

lemma get_memory_data_Inl: "get_memory_data q = Inl e \<longleftrightarrow> q = Inl e"
  by (cases q) (simp_all add: get_memory_data_def)

lemma get_sensor_data_Inl:
  "get_sensor_data q = Inl e \<Longrightarrow> isl (sensors_temperatures q) \<or> isl (sensors_fans q)"
  by (auto simp: get_sensor_data_def Let_def split: sum.splits)

lemma get_process_data_Inl: "get_process_data q = Inl e \<Longrightarrow> process_raises q"
  by (auto simp: get_process_data_def process_raises_def Let_def split: sum.splits)

lemma try_body_Inr:
  assumes "try_body os ct td self = (Inr d, self')"
  shows "\<exists>cpu mem sens io self1 procs.
           get_cpu_data (cpu_q os) = Inr cpu
         \<and> get_memory_data (mem_q os) = Inr mem
         \<and> get_sensor_data (sensor_q os) = Inr sens
         \<and> get_io_data (io_q os) td self = (Inr io, self1)
         \<and> get_process_data (process_q os) = Inr procs
         \<and> calculate_conceptual_flux_metrics
              ((((((((Map.empty ++ system_info self)(''Timestamp'' \<mapsto> PyStr (datetime_now os)))
                 ++ cpu) ++ mem) ++ get_gpu_data (gpu_q os)) ++ sens) ++ io) ++ procs)
              (flux_q os) = Inr d
         \<and> self' = self1\<lparr>last_call_time := ct\<rparr>"
  using assms
  by (simp add: try_body_def Let_def split: sum.splits prod.splits)

lemma try_body_Inl:
  assumes "try_body os ct td self = (Inl e, self')"
  shows "(raises_before_io os \<and> self' = self)
       \<or> (\<not> raises_before_io os \<and> (\<exists>r. get_io_data (io_q os) td self = (Inl r, self')))
       \<or> (\<not> raises_before_io os \<and> \<not> io_raises (io_q os)
            \<and> self' = (snd (get_io_data (io_q os) td self))\<lparr>last_call_time := ct\<rparr>)"
  using assms
  by (auto simp: try_body_def Let_def raises_before_io_def get_cpu_data_Inl get_memory_data_Inl
        dest: get_sensor_data_Inl get_cpu_data_Inr get_memory_data_Inr get_sensor_data_Inr get_io_data_Inr
        split: sum.splits prod.splits)

lemma get_float_PyFloat: "data k = Some (PyFloat x) \<Longrightarrow> get_float data k = Inr x"
  by (simp add: get_float_def)

lemma get_packet_errors_PyInt:
  "data ''Network Packet Errors'' = Some (PyInt i) \<Longrightarrow> get_packet_errors data = Inr (of_int i)"
  by (simp add: get_packet_errors_def)

lemma flux_total:
  assumes "get_float data ''CPU Usage (%)'' = Inr cpu_u"
    and "get_float data ''Memory Usage (%)'' = Inr mem_u"
    and "get_float data ''GPU Usage (%)'' = Inr gpu_u"
    and "get_float data key_cpu_temp = Inr temp_c"
    and "get_float data ''Disk Read Rate (MB/s)'' = Inr disk_r"
    and "get_float data ''Disk Write Rate (MB/s)'' = Inr disk_w"
    and "get_float data ''Net Sent (MB/s)'' = Inr net_s"
    and "get_float data ''Net Received (MB/s)'' = Inr net_r"
    and "get_float data ''CPU Freq (GHz)'' = Inr cpu_freq"
    and "get_packet_errors data = Inr packet_errors"
  shows "\<exists>d. calculate_conceptual_flux_metrics data r = Inr d"
  using assms by (simp add: calculate_conceptual_flux_metrics_def try_bind_def Let_def)

lemma flux_keeps:
  "calculate_conceptual_flux_metrics data r = Inr d \<Longrightarrow> k \<notin> flux_keys \<Longrightarrow> d k = data k"
  by (clarsimp simp: calculate_conceptual_flux_metrics_def try_bind_Inr Let_def flux_keys_def)

lemma get_process_data_total: "\<not> process_raises q \<Longrightarrow> \<exists>d. get_process_data q = Inr d"
  by (cases "pids q"; cases "boot_time q"; cases "users q"; cases "num_fds q")
     (simp_all add: process_raises_def get_process_data_def Let_def)

lemma get_sensor_data_total:
  "\<not> isl (sensors_temperatures q) \<Longrightarrow> \<not> isl (sensors_fans q) \<Longrightarrow> \<exists>d. get_sensor_data q = Inr d"
  by (cases "sensors_temperatures q"; cases "sensors_fans q")
     (simp_all add: get_sensor_data_def Let_def)

lemma get_cpu_data_total: "\<not> isl q \<Longrightarrow> \<exists>d. get_cpu_data q = Inr d"
  by (cases q) (simp_all add: get_cpu_data_def)

lemma get_memory_data_total: "\<not> isl q \<Longrightarrow> \<exists>d. get_memory_data q = Inr d"
  by (cases q) (simp_all add: get_memory_data_def)

lemma stages_feed_flux:
  assumes cpu: "get_cpu_data cq = Inr cpu"
    and mem: "get_memory_data mq = Inr mem"
    and sens: "get_sensor_data sq = Inr sens"
    and io: "get_io_data iq td self = (Inr io, self1)"
    and procs: "get_process_data pq = Inr procs"
  shows "\<exists>d. calculate_conceptual_flux_metrics
              ((((((X ++ cpu) ++ mem) ++ get_gpu_data gq) ++ sens) ++ io) ++ procs) r = Inr d"
proof -
  let ?data = "(((((X ++ cpu) ++ mem) ++ get_gpu_data gq) ++ sens) ++ io) ++ procs"
  note doms = dom_get_cpu_data [OF cpu] dom_get_memory_data [OF mem]
    dom_get_gpu_data [of gq] dom_get_sensor_data [OF sens] dom_get_process_data [OF procs]
  have dio: "dom io = io_keys" using get_io_data_Inr [OF io] by simp
  have N: "\<And>m K k. dom m = K \<Longrightarrow> k \<notin> K \<Longrightarrow> m k = None" by auto
  note keys = cpu_keys_def mem_keys_def gpu_keys_def sensor_keys_def io_keys_def
    process_keys_def key_cpu_temp_def key_gpu_temp_def
  obtain x1 x9 where "cpu ''CPU Usage (%)'' = Some (PyFloat x1)"
    and "cpu ''CPU Freq (GHz)'' = Some (PyFloat x9)"
    using get_cpu_data_Inr [OF cpu] by blast
  then have 1: "?data ''CPU Usage (%)'' = Some (PyFloat x1)"
    and 9: "?data ''CPU Freq (GHz)'' = Some (PyFloat x9)"
    using doms dio by (simp_all add: map_add_def N keys)
  obtain x2 where "mem ''Memory Usage (%)'' = Some (PyFloat x2)"
    using get_memory_data_Inr [OF mem] by blast
  then have 2: "?data ''Memory Usage (%)'' = Some (PyFloat x2)"
    using doms dio by (simp add: map_add_def N keys)
  obtain x3 where "get_gpu_data gq ''GPU Usage (%)'' = Some (PyFloat x3)"
    using get_gpu_data_usage [of gq] by blast
  then have 3: "?data ''GPU Usage (%)'' = Some (PyFloat x3)"
    using doms dio by (simp add: map_add_def N keys)
  obtain x4 where "sens key_cpu_temp = Some (PyFloat x4)"
    using get_sensor_data_Inr [OF sens] by blast
  then have 4: "?data key_cpu_temp = Some (PyFloat x4)"
    using doms dio by (simp add: map_add_def N keys)
  obtain x5 x6 x7 x8 i where "io ''Disk Read Rate (MB/s)'' = Some (PyFloat x5)"
    and "io ''Disk Write Rate (MB/s)'' = Some (PyFloat x6)"
    and "io ''Net Sent (MB/s)'' = Some (PyFloat x7)"
    and "io ''Net Received (MB/s)'' = Some (PyFloat x8)"
    and "io ''Network Packet Errors'' = Some (PyInt i)"
    using get_io_data_Inr [OF io] by blast
  then have 5: "?data ''Disk Read Rate (MB/s)'' = Some (PyFloat x5)"
    and 6: "?data ''Disk Write Rate (MB/s)'' = Some (PyFloat x6)"
    and 7: "?data ''Net Sent (MB/s)'' = Some (PyFloat x7)"
    and 8: "?data ''Net Received (MB/s)'' = Some (PyFloat x8)"
    and 10: "?data ''Network Packet Errors'' = Some (PyInt i)"
    using doms dio by (simp_all add: map_add_def N keys)
  show ?thesis
    by (rule flux_total [where data = ?data])
       (simp_all only: get_float_PyFloat [where data = ?data] get_packet_errors_PyInt [where data = ?data]
          1 2 3 4 5 6 7 8 9 10)
qed

lemma try_body_total:
  assumes "\<not> stage_raises os"
  shows "\<exists>d. fst (try_body os ct td self) = Inr d"
proof -
  from assms have a: "\<not> isl (cpu_q os)" "\<not> isl (mem_q os)"
    "\<not> isl (sensors_temperatures (sensor_q os))" "\<not> isl (sensors_fans (sensor_q os))"
    "\<not> io_raises (io_q os)" "\<not> process_raises (process_q os)"
    by (simp_all add: stage_raises_def raises_before_io_def)
  obtain cpu where cpu: "get_cpu_data (cpu_q os) = Inr cpu"
    using get_cpu_data_total a(1) by blast
  obtain mem where mem: "get_memory_data (mem_q os) = Inr mem"
    using get_memory_data_total a(2) by blast
  obtain sens where sens: "get_sensor_data (sensor_q os) = Inr sens"
    using get_sensor_data_total a(3,4) by blast
  obtain io where "fst (get_io_data (io_q os) td self) = Inr io"
    using get_io_data_total a(5) by blast
  then obtain self1 where io: "get_io_data (io_q os) td self = (Inr io, self1)"
    by (cases "get_io_data (io_q os) td self") simp
  obtain procs where procs: "get_process_data (process_q os) = Inr procs"
    using get_process_data_total a(6) by blast
  obtain d where "calculate_conceptual_flux_metrics
      ((((((((Map.empty ++ system_info self)(''Timestamp'' \<mapsto> PyStr (datetime_now os)))
         ++ cpu) ++ mem) ++ get_gpu_data (gpu_q os)) ++ sens) ++ io) ++ procs)
      (flux_q os) = Inr d"
    using stages_feed_flux [OF cpu mem sens io procs] by blast
  then show ?thesis
    by (simp add: try_body_def Let_def cpu mem sens io procs)
qed

lemma try_body_raises:
  assumes "stage_raises os"
  shows "\<exists>e. fst (try_body os ct td self) = Inl e"
proof (cases "try_body os ct td self")
  case (Pair r self')
  show ?thesis
  proof (cases r)
    case (Inl e)
    with Pair show ?thesis by simp
  next
    case (Inr d)
    with Pair have "try_body os ct td self = (Inr d, self')" by simp
    from try_body_Inr [OF this] obtain cpu mem sens io self1 procs where
      "get_cpu_data (cpu_q os) = Inr cpu" "get_memory_data (mem_q os) = Inr mem"
      "get_sensor_data (sensor_q os) = Inr sens"
      "get_io_data (io_q os) td self = (Inr io, self1)"
      "get_process_data (process_q os) = Inr procs"
      by blast
    then have "\<not> stage_raises os"
      using get_cpu_data_Inr get_memory_data_Inr get_sensor_data_Inr get_io_data_Inr
        get_process_data_Inr
      by (simp add: stage_raises_def raises_before_io_def)
    with assms show ?thesis by simp
  qed
qed

lemma get_gpu_data_idle:
  assumes "gpu_unavailable_or_idle q"
  shows "get_gpu_data q ''GPU Usage (%)'' = Some (PyFloat (py_round (uniform 0.1 5.0 (gpu_load_draw q)) 2))"
    and "get_gpu_data q key_gpu_temp = Some (PyFloat (py_round (uniform 30 45 (gpu_temp_draw q)) 1))"
  using assms
  by (simp_all add: get_gpu_data_def gpu_unavailable_or_idle_def Let_def key_gpu_temp_def py_round_0
        split: gputil.splits sum.splits list.splits)

section \<open>What a sampling call returns\<close>

lemma sample_unfold:
  "get_detailed_system_data os self =
     (case try_body os (time_time os) (time_time os - last_call_time self) self of
        (Inr data, self') \<Rightarrow> (data, self')
      | (Inl e, self') \<Rightarrow>
          ([''Error'' \<mapsto> PyStr (''Failed to collect data: '' @ exn_str e)], self'))"
  by (simp add: get_detailed_system_data_def Let_def)

lemma sample_successful_Inr:
  assumes "successful (fst (get_detailed_system_data os self))"
  shows "try_body os (time_time os) (time_time os - last_call_time self) self =
           (Inr (fst (get_detailed_system_data os self)), snd (get_detailed_system_data os self))"
  using assms
  by (auto simp: sample_unfold successful_def split: prod.splits sum.splits)

lemma sample_raises:
  assumes "stage_raises os"
  shows "\<exists>e. fst (try_body os (time_time os) (time_time os - last_call_time self) self) = Inl e
           \<and> fst (get_detailed_system_data os self) =
               [''Error'' \<mapsto> PyStr (''Failed to collect data: '' @ exn_str e)]"
proof -
  obtain e where "fst (try_body os (time_time os) (time_time os - last_call_time self) self) = Inl e"
    using try_body_raises [OF assms] by blast
  then show ?thesis
    by (auto simp: sample_unfold split: prod.splits)
qed

lemma sample_snd:
  "snd (get_detailed_system_data os self) =
     snd (try_body os (time_time os) (time_time os - last_call_time self) self)"
  by (simp add: sample_unfold split: prod.splits sum.splits)

lemma try_body_snd_cases:
  "(raises_before_io os \<and> snd (try_body os ct td self) = self)
   \<or> (\<not> raises_before_io os \<and> io_raises (io_q os)
        \<and> snd (try_body os ct td self) = snd (get_io_data (io_q os) td self))
   \<or> (\<not> raises_before_io os \<and> \<not> io_raises (io_q os)
        \<and> snd (try_body os ct td self) = (snd (get_io_data (io_q os) td self))\<lparr>last_call_time := ct\<rparr>)"
proof (cases "try_body os ct td self")
  case (Pair r self')
  show ?thesis
  proof (cases r)
    case (Inl e)
    with Pair have "try_body os ct td self = (Inl e, self')" by simp
    from try_body_Inl [OF this] show ?thesis
      using Pair by (auto dest: get_io_data_Inl)
  next
    case (Inr d)
    with Pair have "try_body os ct td self = (Inr d, self')" by simp
    from try_body_Inr [OF this] obtain cpu mem sens io self1 procs where
      s: "get_cpu_data (cpu_q os) = Inr cpu" "get_memory_data (mem_q os) = Inr mem"
      "get_sensor_data (sensor_q os) = Inr sens"
      "get_io_data (io_q os) td self = (Inr io, self1)"
      "self' = self1\<lparr>last_call_time := ct\<rparr>"
      by blast
    then have "\<not> raises_before_io os" "\<not> io_raises (io_q os)"
      using get_cpu_data_Inr get_memory_data_Inr get_sensor_data_Inr get_io_data_Inr
      by (simp_all add: raises_before_io_def)
    then show ?thesis using Pair s by simp
  qed
qed

lemma sample_system_info:
  "system_info (snd (get_detailed_system_data os self)) = system_info self"
  using try_body_snd_cases [of os "time_time os" "time_time os - last_call_time self" self]
  by (auto simp: sample_snd get_io_data_system_info)

lemma calls_system_info: "system_info (calls oss self) = system_info self"
  by (induction oss arbitrary: self) (simp_all add: sample_system_info)

lemma dom_get_static_system_info:
  "get_static_system_info q boot = Inr d \<Longrightarrow> dom d = static_keys"
  by (cases q) (clarsimp simp: get_static_system_info_def static_keys_def insert_commute)+

lemma init_system_info:
  assumes "SystemMonitor_init q = Inr self"
  shows "dom (system_info self) = static_keys"
proof -
  from assms obtain net disk boot info where
    "get_static_system_info (init_static q) boot = Inr info"
    and "self = \<lparr>last_net_io = net, last_disk_io = disk, last_call_time = init_time_time q,
            system_boot_time = boot, system_info = info\<rparr>"
    unfolding SystemMonitor_init_def try_bind_Inr by blast
  then show ?thesis by (simp add: dom_get_static_system_info)
qed

lemma try_body_dom:
  assumes "try_body os ct td self = (Inr d, self')"
  shows "dom d =
    dom (system_info self) \<union> {''Timestamp''} \<union> cpu_keys \<union> mem_keys \<union> gpu_keys \<union> sensor_keys
       \<union> io_keys \<union> process_keys \<union> flux_keys"
proof -
  from try_body_Inr [OF assms]
  obtain cpu mem sens io self1 procs where
    s: "get_cpu_data (cpu_q os) = Inr cpu" "get_memory_data (mem_q os) = Inr mem"
      "get_sensor_data (sensor_q os) = Inr sens"
      "get_io_data (io_q os) td self = (Inr io, self1)"
      "get_process_data (process_q os) = Inr procs"
    and f: "calculate_conceptual_flux_metrics
              ((((((((Map.empty ++ system_info self)(''Timestamp'' \<mapsto> PyStr (datetime_now os)))
                 ++ cpu) ++ mem) ++ get_gpu_data (gpu_q os)) ++ sens) ++ io) ++ procs)
              (flux_q os) = Inr d"
    by blast
  have dio: "dom io = io_keys" using get_io_data_Inr [OF s(4)] by simp
  show ?thesis
    unfolding dom_flux [OF f]
    by (simp add: dom_get_cpu_data [OF s(1)] dom_get_memory_data [OF s(2)] dom_get_gpu_data
          dom_get_sensor_data [OF s(3)] dio dom_get_process_data [OF s(5)] Un_ac)
qed

lemma successful_dom:
  assumes "successful (fst (get_detailed_system_data os self))"
    and "dom (system_info self) = static_keys"
  shows "dom (fst (get_detailed_system_data os self)) = snapshot_keys"
  using try_body_dom [OF sample_successful_Inr [OF assms(1)]] assms(2)
  by (simp add: snapshot_keys_def)

lemma Error_not_a_snapshot_key: "''Error'' \<notin> snapshot_keys"
  by (simp add: snapshot_keys_def static_keys_def cpu_keys_def mem_keys_def gpu_keys_def
        sensor_keys_def io_keys_def process_keys_def flux_keys_def key_cpu_temp_def
        key_gpu_temp_def)

lemma sample_succeeds:
  assumes "\<not> stage_raises os" and "dom (system_info self) = static_keys"
  shows "successful (fst (get_detailed_system_data os self))"
proof -
  obtain d where d: "fst (try_body os (time_time os) (time_time os - last_call_time self) self) = Inr d"
    using try_body_total [OF assms(1)] by blast
  then obtain self' where
    t: "try_body os (time_time os) (time_time os - last_call_time self) self = (Inr d, self')"
    by (cases "try_body os (time_time os) (time_time os - last_call_time self) self") simp
  have "dom d = snapshot_keys"
    using try_body_dom [OF t] assms(2) by (simp add: snapshot_keys_def)
  then have "d ''Error'' = None"
    using Error_not_a_snapshot_key by blast
  moreover have "fst (get_detailed_system_data os self) = d"
    by (simp add: sample_unfold t)
  ultimately show ?thesis by (simp add: successful_def)
qed

lemma snapshot_attrs:
  assumes "successful (fst (get_detailed_system_data os self))"
  shows "k \<in> io_keys \<Longrightarrow> fst (get_detailed_system_data os self) k =
            attr (fst (get_io_data (io_q os) (time_time os - last_call_time self) self)) k"
    and "k \<in> gpu_keys \<Longrightarrow> fst (get_detailed_system_data os self) k = get_gpu_data (gpu_q os) k"
    and "k \<in> process_keys \<Longrightarrow> fst (get_detailed_system_data os self) k =
            attr (get_process_data (process_q os)) k"
proof -
  let ?td = "time_time os - last_call_time self"
  let ?d = "fst (get_detailed_system_data os self)"
  from try_body_Inr [OF sample_successful_Inr [OF assms]]
  obtain cpu mem sens io self1 procs where
    s: "get_cpu_data (cpu_q os) = Inr cpu" "get_memory_data (mem_q os) = Inr mem"
      "get_sensor_data (sensor_q os) = Inr sens"
      "get_io_data (io_q os) ?td self = (Inr io, self1)"
      "get_process_data (process_q os) = Inr procs"
    and f: "calculate_conceptual_flux_metrics
              ((((((((Map.empty ++ system_info self)(''Timestamp'' \<mapsto> PyStr (datetime_now os)))
                 ++ cpu) ++ mem) ++ get_gpu_data (gpu_q os)) ++ sens) ++ io) ++ procs)
              (flux_q os) = Inr ?d"
    by blast
  have N: "\<And>m K k. dom m = K \<Longrightarrow> k \<notin> K \<Longrightarrow> m k = None" by auto
  have S: "\<And>m K k. dom m = K \<Longrightarrow> k \<in> K \<Longrightarrow> \<exists>v. m k = Some v" by auto
  note keys = gpu_keys_def sensor_keys_def io_keys_def process_keys_def flux_keys_def
    key_cpu_temp_def key_gpu_temp_def
  have dio: "dom io = io_keys" using get_io_data_Inr [OF s(4)] by simp
  note dpr = dom_get_process_data [OF s(5)]
  note dse = dom_get_sensor_data [OF s(3)]
  {
    assume k: "k \<in> io_keys"
    then have "k \<notin> flux_keys" "k \<notin> process_keys" by (auto simp: keys)
    moreover obtain v where "io k = Some v" using S [OF dio k] by blast
    ultimately show "?d k = attr (fst (get_io_data (io_q os) ?td self)) k"
      using flux_keeps [OF f] N [OF dpr] by (simp add: s map_add_def)
  }
  {
    assume k: "k \<in> gpu_keys"
    then have "k \<notin> flux_keys" "k \<notin> process_keys" "k \<notin> io_keys" "k \<notin> sensor_keys"
      by (auto simp: keys)
    moreover obtain v where "get_gpu_data (gpu_q os) k = Some v"
      using S [OF dom_get_gpu_data k] by blast
    ultimately show "?d k = get_gpu_data (gpu_q os) k"
      using flux_keeps [OF f] N [OF dpr] N [OF dio] N [OF dse] by (simp add: map_add_def)
  }
  {
    assume k: "k \<in> process_keys"
    then have "k \<notin> flux_keys" by (auto simp: keys)
    moreover obtain v where "procs k = Some v" using S [OF dpr k] by blast
    ultimately show "?d k = attr (get_process_data (process_q os)) k"
      using flux_keeps [OF f] by (simp add: s map_add_def)
  }
qed

section \<open>The concrete inputs\<close>

lemma init_ex: "SystemMonitor_init ex_init = Inr ex_monitor"
  by (simp add: SystemMonitor_init_def ex_init_def ex_monitor_def try_bind_def
        get_static_system_info_def py_round_def round_half_even_def)

lemma ex_os_runs: "\<not> stage_raises ex_os"
  by (simp add: stage_raises_def raises_before_io_def io_raises_def process_raises_def
        ex_os_def ex_sensor_def ex_io_def ex_process_def)

lemma ex_os_gpu_runs: "\<not> stage_raises ex_os_gpu"
  by (simp add: stage_raises_def raises_before_io_def io_raises_def process_raises_def
        ex_os_gpu_def ex_os_def ex_sensor_def ex_io_def ex_process_def)

lemma ex_monitor_static: "dom (system_info ex_monitor) = static_keys"
  by (rule init_system_info [OF init_ex])

lemma ex_os_successful: "successful (fst (get_detailed_system_data ex_os ex_monitor))"
  by (rule sample_succeeds [OF ex_os_runs ex_monitor_static])

lemma ex_os_no_fds_stages:
  "\<not> raises_before_io ex_os_no_fds" "\<not> io_raises (io_q ex_os_no_fds)"
  "process_raises (process_q ex_os_no_fds)"
  by (simp_all add: raises_before_io_def io_raises_def process_raises_def ex_os_no_fds_def
        ex_os_def ex_sensor_def ex_io_def ex_process_def)

lemma snapshot_rates:
  assumes s: "successful (fst (get_detailed_system_data os self))"
    and cd: "disk_io_counters (io_q os) = Inr cd" and cn: "net_io_counters (io_q os) = Inr cn"
  shows "let t = time_time os - last_call_time self; d = fst (get_detailed_system_data os self);
             r = (if t > 0 then py_round ((of_int (read_bytes cd - read_bytes (last_disk_io self)) / t) / (1024 ^ 2)) 2 else 0);
             w = (if t > 0 then py_round ((of_int (write_bytes cd - write_bytes (last_disk_io self)) / t) / (1024 ^ 2)) 2 else 0)
         in d ''Disk Read Rate (MB/s)'' = Some (PyFloat r)
          \<and> d ''Disk Write Rate (MB/s)'' = Some (PyFloat w)
          \<and> d ''Net Sent (MB/s)'' = Some (PyFloat (if t > 0 then py_round ((of_int (bytes_sent cn - bytes_sent (last_net_io self)) / t) / (1024 ^ 2)) 2 else 0))
          \<and> d ''Net Received (MB/s)'' = Some (PyFloat (if t > 0 then py_round ((of_int (bytes_recv cn - bytes_recv (last_net_io self)) / t) / (1024 ^ 2)) 2 else 0))
          \<and> d ''Disk I/O Latency (Sim/ms)'' =
                Some (PyFloat (py_round (uniform 2 20 (latency_draw (io_q os)) * (if r + w > 0 then 1 else 0)) 2))"
proof -
  let ?td = "time_time os - last_call_time self"
  from try_body_Inr [OF sample_successful_Inr [OF s]]
  obtain io self1 where "get_io_data (io_q os) ?td self = (Inr io, self1)" by blast
  from get_io_data_Inr [OF this] have "\<not> io_raises (io_q os)" by simp
  then obtain c p where q: "net_connections (io_q os) = Inr c" "disk_partitions (io_q os) = Inr p"
    by (cases "net_connections (io_q os)"; cases "disk_partitions (io_q os)")
       (simp_all add: io_raises_def)
  have k: "''Disk Read Rate (MB/s)'' \<in> io_keys" "''Disk Write Rate (MB/s)'' \<in> io_keys"
    "''Net Sent (MB/s)'' \<in> io_keys" "''Net Received (MB/s)'' \<in> io_keys"
    "''Disk I/O Latency (Sim/ms)'' \<in> io_keys"
    by (simp_all add: io_keys_def)
  show ?thesis
    unfolding Let_def
    by (simp only: snapshot_attrs(1) [OF s k(1)] snapshot_attrs(1) [OF s k(2)]
          snapshot_attrs(1) [OF s k(3)] snapshot_attrs(1) [OF s k(4)] snapshot_attrs(1) [OF s k(5)]
          get_io_data_returns [OF cd cn q] fst_conv attr.simps io_dict_rates io_dict_latency)
qed

lemma ex_os_rates:
  "fst (get_detailed_system_data ex_os ex_monitor) ''Disk Read Rate (MB/s)'' = Some (PyFloat 1.95)"
  "fst (get_detailed_system_data ex_os ex_monitor) ''Disk Write Rate (MB/s)'' = Some (PyFloat 0)"
proof -
  have cd: "disk_io_counters (io_q ex_os) = Inr \<lparr>read_bytes = 2048000 + 1000000, write_bytes = 500000\<rparr>"
    and cn: "net_io_counters (io_q ex_os) = Inr \<lparr>bytes_sent = 1048576, bytes_recv = 2097152, errin = 0, errout = 0\<rparr>"
    by (simp_all add: ex_os_def ex_io_def)
  have t: "time_time ex_os - last_call_time ex_monitor = 1"
    by (simp add: ex_os_def ex_monitor_def)
  have l: "last_disk_io ex_monitor = \<lparr>read_bytes = 1000000, write_bytes = 500000\<rparr>"
    by (simp add: ex_monitor_def)
  from snapshot_rates [OF ex_os_successful cd cn]
  show "fst (get_detailed_system_data ex_os ex_monitor) ''Disk Read Rate (MB/s)'' = Some (PyFloat 1.95)"
    "fst (get_detailed_system_data ex_os ex_monitor) ''Disk Write Rate (MB/s)'' = Some (PyFloat 0)"
    by (simp_all add: Let_def t l py_round_def round_half_even_def)
qed


lemma ex_os_scenario:
  "last_disk_io ex_monitor = \<lparr>read_bytes = 1000000, write_bytes = 500000\<rparr>"
  "disk_io_counters (io_q ex_os) = Inr \<lparr>read_bytes = 2048000 + 1000000, write_bytes = 500000\<rparr>"
  "net_io_counters (io_q ex_os) =
     Inr \<lparr>bytes_sent = 1048576, bytes_recv = 2097152, errin = 0, errout = 0\<rparr>"
  "time_time ex_os - last_call_time ex_monitor = 1"
  by (simp_all add: ex_os_def ex_io_def ex_monitor_def)

lemma ex_os_disk_removed_runs: "\<not> stage_raises ex_os_disk_removed"
  by (simp add: stage_raises_def raises_before_io_def io_raises_def process_raises_def
        ex_os_disk_removed_def ex_io_disk_removed_def
        ex_os_def ex_sensor_def ex_io_def ex_process_def)

lemma ex_os_disk_removed_successful:
  "successful (fst (get_detailed_system_data ex_os_disk_removed ex_monitor))"
  by (rule sample_succeeds [OF ex_os_disk_removed_runs ex_monitor_static])

lemma ex_os_disk_removed_rates:
  "fst (get_detailed_system_data ex_os_disk_removed ex_monitor) ''Disk Read Rate (MB/s)'' = Some (PyFloat (- 0.5))"
  "fst (get_detailed_system_data ex_os_disk_removed ex_monitor) ''Disk Write Rate (MB/s)'' = Some (PyFloat 0.25)"
  "fst (get_detailed_system_data ex_os_disk_removed ex_monitor) ''Disk I/O Latency (Sim/ms)'' = Some (PyFloat 0)"
proof -
  have cd: "disk_io_counters (io_q ex_os_disk_removed) =
              Inr \<lparr>read_bytes = 475712, write_bytes = 762144\<rparr>"
    and cn: "net_io_counters (io_q ex_os_disk_removed) =
              Inr \<lparr>bytes_sent = 1048576, bytes_recv = 2097152, errin = 0, errout = 0\<rparr>"
    by (simp_all add: ex_os_disk_removed_def ex_io_disk_removed_def ex_os_def ex_io_def)
  have t: "time_time ex_os_disk_removed - last_call_time ex_monitor = 1"
    by (simp add: ex_os_disk_removed_def ex_os_def ex_monitor_def)
  from snapshot_rates [OF ex_os_disk_removed_successful cd cn]
  show "fst (get_detailed_system_data ex_os_disk_removed ex_monitor) ''Disk Read Rate (MB/s)'' = Some (PyFloat (- 0.5))"
  "fst (get_detailed_system_data ex_os_disk_removed ex_monitor) ''Disk Write Rate (MB/s)'' = Some (PyFloat 0.25)"
  "fst (get_detailed_system_data ex_os_disk_removed ex_monitor) ''Disk I/O Latency (Sim/ms)'' = Some (PyFloat 0)"
    by (simp_all add: Let_def t ex_os_scenario py_round_def round_half_even_def)
qed

section \<open>The derived indicators\<close>
























section \<open>Throughput rates\<close>

text \<open>
  C5. When the elapsed time passed to the rate stage is zero or negative, the stage does
  not raise (the division is not evaluated) and each of the four rate attributes is \<open>0.0\<close>,
  whatever the stored and the current counters are.
\<close>

theorem rates_zero_without_elapsed_time:
  assumes "time_diff \<le> 0"
    and "disk_io_counters q = Inr cd" and "net_io_counters q = Inr cn"
    and "net_connections q = Inr c" and "disk_partitions q = Inr p"
  shows "\<exists>d. fst (get_io_data q time_diff self) = Inr d
            \<and> d ''Disk Read Rate (MB/s)'' = Some (PyFloat 0)
            \<and> d ''Disk Write Rate (MB/s)'' = Some (PyFloat 0)
            \<and> d ''Net Sent (MB/s)'' = Some (PyFloat 0)
            \<and> d ''Net Received (MB/s)'' = Some (PyFloat 0)"
  using assms by (simp add: get_io_data_returns io_dict_rates)

theorem rates_zero_without_elapsed_time_witness:
  "(-1 :: real) \<le> 0
   \<and> (\<exists>d. fst (get_io_data ex_io (-1) ex_monitor) = Inr d
            \<and> d ''Disk Read Rate (MB/s)'' = Some (PyFloat 0)
            \<and> d ''Disk Write Rate (MB/s)'' = Some (PyFloat 0)
            \<and> d ''Net Sent (MB/s)'' = Some (PyFloat 0)
            \<and> d ''Net Received (MB/s)'' = Some (PyFloat 0))"
  using rates_zero_without_elapsed_time [of "-1" ex_io _ _ _ _ ex_monitor]
  by (simp add: ex_io_def)

text \<open>
  C4, as the code has it. On a successful sampling call with elapsed time \<open>t > 0\<close>, each
  disk and network throughput attribute is \<open>(current - previous) / t / 2^20\<close> rounded to
  two decimals, within \<open>0.01\<close> of the exact quotient. In particular, for the stored disk
  counters \<open>(read = 1_000_000, write = 500_000)\<close>, the current counters
  \<open>(read = 2_048_000 + 1_000_000, write = 500_000)\<close> and \<open>t = 1.0\<close>, the disk read rate is
  \<open>1.95\<close> and the disk write rate \<open>0.00\<close>.
\<close>

theorem throughput_rates:
  "(\<forall>os self cd cn.
      successful (fst (get_detailed_system_data os self))
      \<and> 0 < time_time os - last_call_time self
      \<and> disk_io_counters (io_q os) = Inr cd \<and> net_io_counters (io_q os) = Inr cn
      \<longrightarrow>
      (let t = time_time os - last_call_time self;
           d = fst (get_detailed_system_data os self);
           disk_read = rate_MBps (read_bytes cd) (read_bytes (last_disk_io self)) t;
           disk_write = rate_MBps (write_bytes cd) (write_bytes (last_disk_io self)) t;
           net_sent = rate_MBps (bytes_sent cn) (bytes_sent (last_net_io self)) t;
           net_recv = rate_MBps (bytes_recv cn) (bytes_recv (last_net_io self)) t
       in d ''Disk Read Rate (MB/s)'' = Some (PyFloat (py_round disk_read 2))
        \<and> \<bar>py_round disk_read 2 - disk_read\<bar> \<le> 0.01
        \<and> d ''Disk Write Rate (MB/s)'' = Some (PyFloat (py_round disk_write 2))
        \<and> \<bar>py_round disk_write 2 - disk_write\<bar> \<le> 0.01
        \<and> d ''Net Sent (MB/s)'' = Some (PyFloat (py_round net_sent 2))
        \<and> \<bar>py_round net_sent 2 - net_sent\<bar> \<le> 0.01
        \<and> d ''Net Received (MB/s)'' = Some (PyFloat (py_round net_recv 2))
        \<and> \<bar>py_round net_recv 2 - net_recv\<bar> \<le> 0.01))
   \<and> last_disk_io ex_monitor = \<lparr>read_bytes = 1000000, write_bytes = 500000\<rparr>
   \<and> disk_io_counters (io_q ex_os) =
         Inr \<lparr>read_bytes = 2048000 + 1000000, write_bytes = 500000\<rparr>
   \<and> time_time ex_os - last_call_time ex_monitor = 1
   \<and> fst (get_detailed_system_data ex_os ex_monitor) ''Disk Read Rate (MB/s)'' =
         Some (PyFloat 1.95)
   \<and> fst (get_detailed_system_data ex_os ex_monitor) ''Disk Write Rate (MB/s)'' =
         Some (PyFloat 0.00)"
proof -
  have e: "\<And>x. \<bar>py_round x 2 - x\<bar> \<le> 0.01"
    using py_round_2_error by (rule order_trans) simp
  have g: "\<And>os self cd cn.
      successful (fst (get_detailed_system_data os self)) \<Longrightarrow>
      0 < time_time os - last_call_time self \<Longrightarrow>
      disk_io_counters (io_q os) = Inr cd \<Longrightarrow> net_io_counters (io_q os) = Inr cn \<Longrightarrow>
      (let t = time_time os - last_call_time self;
           d = fst (get_detailed_system_data os self);
           disk_read = rate_MBps (read_bytes cd) (read_bytes (last_disk_io self)) t;
           disk_write = rate_MBps (write_bytes cd) (write_bytes (last_disk_io self)) t;
           net_sent = rate_MBps (bytes_sent cn) (bytes_sent (last_net_io self)) t;
           net_recv = rate_MBps (bytes_recv cn) (bytes_recv (last_net_io self)) t
       in d ''Disk Read Rate (MB/s)'' = Some (PyFloat (py_round disk_read 2))
        \<and> \<bar>py_round disk_read 2 - disk_read\<bar> \<le> 0.01
        \<and> d ''Disk Write Rate (MB/s)'' = Some (PyFloat (py_round disk_write 2))
        \<and> \<bar>py_round disk_write 2 - disk_write\<bar> \<le> 0.01
        \<and> d ''Net Sent (MB/s)'' = Some (PyFloat (py_round net_sent 2))
        \<and> \<bar>py_round net_sent 2 - net_sent\<bar> \<le> 0.01
        \<and> d ''Net Received (MB/s)'' = Some (PyFloat (py_round net_recv 2))
        \<and> \<bar>py_round net_recv 2 - net_recv\<bar> \<le> 0.01)"
  proof -
    fix os self cd cn
    assume s: "successful (fst (get_detailed_system_data os self))"
      and t: "0 < time_time os - last_call_time self"
      and cd: "disk_io_counters (io_q os) = Inr cd" and cn: "net_io_counters (io_q os) = Inr cn"
    let ?t = "time_time os - last_call_time self"
    let ?d = "fst (get_detailed_system_data os self)"
    have c: "\<And>a b. (of_int (a - b) / ?t) / (1024 ^ 2) = rate_MBps a b ?t"
      by (simp add: rate_MBps_def)
    from snapshot_rates [OF s cd cn] t
    have "?d ''Disk Read Rate (MB/s)'' =
            Some (PyFloat (py_round (rate_MBps (read_bytes cd) (read_bytes (last_disk_io self)) ?t) 2))"
      and "?d ''Disk Write Rate (MB/s)'' =
            Some (PyFloat (py_round (rate_MBps (write_bytes cd) (write_bytes (last_disk_io self)) ?t) 2))"
      and "?d ''Net Sent (MB/s)'' =
            Some (PyFloat (py_round (rate_MBps (bytes_sent cn) (bytes_sent (last_net_io self)) ?t) 2))"
      and "?d ''Net Received (MB/s)'' =
            Some (PyFloat (py_round (rate_MBps (bytes_recv cn) (bytes_recv (last_net_io self)) ?t) 2))"
      by (simp_all only: Let_def if_True c)
    then show "?thesis os self cd cn"
      by (simp only: Let_def e simp_thms)
  qed
  show ?thesis
    using g ex_os_scenario ex_os_rates by simp
qed

theorem throughput_rates_witness:
  "successful (fst (get_detailed_system_data ex_os ex_monitor))
   \<and> 0 < time_time ex_os - last_call_time ex_monitor
   \<and> disk_io_counters (io_q ex_os) = Inr \<lparr>read_bytes = 2048000 + 1000000, write_bytes = 500000\<rparr>
   \<and> net_io_counters (io_q ex_os) =
        Inr \<lparr>bytes_sent = 1048576, bytes_recv = 2097152, errin = 0, errout = 0\<rparr>
   \<and> fst (get_detailed_system_data ex_os ex_monitor) ''Disk Read Rate (MB/s)'' =
        Some (PyFloat (py_round (rate_MBps (2048000 + 1000000) 1000000 1) 2))
   \<and> fst (get_detailed_system_data ex_os ex_monitor) ''Net Received (MB/s)'' =
        Some (PyFloat (py_round (rate_MBps 2097152 0 1) 2))
   \<and> \<bar>py_round (rate_MBps (2048000 + 1000000) 1000000 1) 2
        - rate_MBps (2048000 + 1000000) 1000000 1\<bar> \<le> 0.01"
proof -
  have h: "successful (fst (get_detailed_system_data ex_os ex_monitor))
     \<and> 0 < time_time ex_os - last_call_time ex_monitor
     \<and> disk_io_counters (io_q ex_os) = Inr \<lparr>read_bytes = 2048000 + 1000000, write_bytes = 500000\<rparr>
     \<and> net_io_counters (io_q ex_os) =
          Inr \<lparr>bytes_sent = 1048576, bytes_recv = 2097152, errin = 0, errout = 0\<rparr>"
    using ex_os_successful ex_os_scenario by simp
  have n: "last_net_io ex_monitor = \<lparr>bytes_sent = 0, bytes_recv = 0, errin = 0, errout = 0\<rparr>"
    by (simp add: ex_monitor_def)
  from throughput_rates have "\<forall>os self cd cn.
      successful (fst (get_detailed_system_data os self))
      \<and> 0 < time_time os - last_call_time self
      \<and> disk_io_counters (io_q os) = Inr cd \<and> net_io_counters (io_q os) = Inr cn
      \<longrightarrow>
      (let t = time_time os - last_call_time self;
           d = fst (get_detailed_system_data os self);
           disk_read = rate_MBps (read_bytes cd) (read_bytes (last_disk_io self)) t;
           disk_write = rate_MBps (write_bytes cd) (write_bytes (last_disk_io self)) t;
           net_sent = rate_MBps (bytes_sent cn) (bytes_sent (last_net_io self)) t;
           net_recv = rate_MBps (bytes_recv cn) (bytes_recv (last_net_io self)) t
       in d ''Disk Read Rate (MB/s)'' = Some (PyFloat (py_round disk_read 2))
        \<and> \<bar>py_round disk_read 2 - disk_read\<bar> \<le> 0.01
        \<and> d ''Disk Write Rate (MB/s)'' = Some (PyFloat (py_round disk_write 2))
        \<and> \<bar>py_round disk_write 2 - disk_write\<bar> \<le> 0.01
        \<and> d ''Net Sent (MB/s)'' = Some (PyFloat (py_round net_sent 2))
        \<and> \<bar>py_round net_sent 2 - net_sent\<bar> \<le> 0.01
        \<and> d ''Net Received (MB/s)'' = Some (PyFloat (py_round net_recv 2))
        \<and> \<bar>py_round net_recv 2 - net_recv\<bar> \<le> 0.01)"
    by (rule conjunct1)
  from this [rule_format, OF h] h show ?thesis
    by (simp add: Let_def ex_os_scenario n)
qed

text \<open>
  C4 as stated fails in its scenario: \<open>2_048_000 / 2^20 = 1.953125\<close>, so the disk read rate
  is \<open>1.95\<close>, which is not \<open>2.00\<close> and not within \<open>0.01\<close> of it.
\<close>

theorem scenario_disk_read_rate:
  "last_disk_io ex_monitor = \<lparr>read_bytes = 1000000, write_bytes = 500000\<rparr>
   \<and> disk_io_counters (io_q ex_os) =
         Inr \<lparr>read_bytes = 2048000 + 1000000, write_bytes = 500000\<rparr>
   \<and> time_time ex_os - last_call_time ex_monitor = 1
   \<and> successful (fst (get_detailed_system_data ex_os ex_monitor))
   \<and> fst (get_detailed_system_data ex_os ex_monitor) ''Disk Read Rate (MB/s)'' =
         Some (PyFloat 1.95)
   \<and> fst (get_detailed_system_data ex_os ex_monitor) ''Disk Read Rate (MB/s)'' \<noteq>
         Some (PyFloat 2.00)
   \<and> \<not> \<bar>(1.95 :: real) - 2.00\<bar> \<le> 0.01"
  using ex_os_scenario ex_os_successful ex_os_rates by simp

text \<open>
  C9, as the code has it. On a successful sampling call, with the draw of the random source
  in \<open>[0, 1)\<close>, the simulated disk latency is \<open>0.0\<close> whenever the sum of the disk read rate
  and the disk write rate is not positive (so in particular when both are \<open>0.0\<close>), and
  otherwise it is \<^verbatim>\<open>random.uniform(2, 20)\<close> rounded to two decimals, a value of \<open>[2, 20]\<close>.
\<close>

theorem disk_latency:
  assumes "successful (fst (get_detailed_system_data os self))"
    and "unit_draw (latency_draw (io_q os))"
  shows "\<exists>r w l. fst (get_detailed_system_data os self) ''Disk Read Rate (MB/s)'' = Some (PyFloat r)
           \<and> fst (get_detailed_system_data os self) ''Disk Write Rate (MB/s)'' = Some (PyFloat w)
           \<and> fst (get_detailed_system_data os self) ''Disk I/O Latency (Sim/ms)'' = Some (PyFloat l)
           \<and> (r = 0 \<and> w = 0 \<longrightarrow> l = 0)
           \<and> (r + w \<le> 0 \<longrightarrow> l = 0)
           \<and> (0 < r + w \<longrightarrow>
                 l = py_round (uniform 2 20 (latency_draw (io_q os))) 2 \<and> 2 \<le> l \<and> l \<le> 20)"
proof -
  let ?td = "time_time os - last_call_time self"
  let ?u = "latency_draw (io_q os)"
  from try_body_Inr [OF sample_successful_Inr [OF assms(1)]]
  obtain io self1 where "get_io_data (io_q os) ?td self = (Inr io, self1)" by blast
  from get_io_data_Inr [OF this] have "\<not> io_raises (io_q os)" by simp
  then obtain cd cn where q: "disk_io_counters (io_q os) = Inr cd" "net_io_counters (io_q os) = Inr cn"
    by (cases "disk_io_counters (io_q os)"; cases "net_io_counters (io_q os)")
       (simp_all add: io_raises_def)
  have b: "2 \<le> py_round (uniform 2 20 ?u) 2" "py_round (uniform 2 20 ?u) 2 \<le> 20"
    using uniform_bounds [OF assms(2), of 2 20]
      py_round_ge [of 200 2 "uniform 2 20 ?u"] py_round_le [of "uniform 2 20 ?u" 2000 2]
    by simp_all
  from snapshot_rates [OF assms(1) q] show ?thesis
    unfolding Let_def using b by (auto simp: py_round_0)
qed

theorem disk_latency_witness:
  "successful (fst (get_detailed_system_data ex_os ex_monitor))
   \<and> unit_draw (latency_draw (io_q ex_os))
   \<and> (\<exists>r w l. fst (get_detailed_system_data ex_os ex_monitor) ''Disk Read Rate (MB/s)'' = Some (PyFloat r)
           \<and> fst (get_detailed_system_data ex_os ex_monitor) ''Disk Write Rate (MB/s)'' = Some (PyFloat w)
           \<and> fst (get_detailed_system_data ex_os ex_monitor) ''Disk I/O Latency (Sim/ms)'' = Some (PyFloat l)
           \<and> 0 < r + w
           \<and> l = py_round (uniform 2 20 (latency_draw (io_q ex_os))) 2 \<and> 2 \<le> l \<and> l \<le> 20)"
proof -
  have u: "unit_draw (latency_draw (io_q ex_os))"
    by (simp add: unit_draw_def ex_os_def ex_io_def)
  from disk_latency [OF ex_os_successful u] ex_os_rates ex_os_successful u
  show ?thesis by auto
qed

text \<open>
  C9 as stated fails. After a disk has disappeared the total read count is found below the
  stored one: the stored counters are \<open>(read = 1_000_000, write = 500_000)\<close>, the current
  ones \<open>(read = 475_712, write = 762_144)\<close>, and \<open>t = 1.0\<close>. The rates are \<open>-0.5\<close> and
  \<open>0.25\<close>, not both zero, and the latency is \<open>0.0\<close>, which is not in \<open>[2, 20]\<close>.
\<close>

theorem latency_zero_with_nonzero_rates:
  "last_disk_io ex_monitor = \<lparr>read_bytes = 1000000, write_bytes = 500000\<rparr>
   \<and> disk_io_counters (io_q ex_os_disk_removed) =
        Inr \<lparr>read_bytes = 475712, write_bytes = 762144\<rparr>
   \<and> time_time ex_os_disk_removed - last_call_time ex_monitor = 1
   \<and> successful (fst (get_detailed_system_data ex_os_disk_removed ex_monitor))
   \<and> unit_draw (latency_draw (io_q ex_os_disk_removed))
   \<and> fst (get_detailed_system_data ex_os_disk_removed ex_monitor) ''Disk Read Rate (MB/s)'' =
        Some (PyFloat (- 0.5))
   \<and> fst (get_detailed_system_data ex_os_disk_removed ex_monitor) ''Disk Write Rate (MB/s)'' =
        Some (PyFloat 0.25)
   \<and> \<not> ((- 0.5 :: real) = 0 \<and> (0.25 :: real) = 0)
   \<and> fst (get_detailed_system_data ex_os_disk_removed ex_monitor) ''Disk I/O Latency (Sim/ms)'' =
        Some (PyFloat 0)
   \<and> \<not> (2 \<le> (0 :: real) \<and> (0 :: real) \<le> 20)"
  using ex_os_disk_removed_successful ex_os_disk_removed_rates ex_os_scenario(1)
  by (simp add: unit_draw_def ex_os_disk_removed_def ex_io_disk_removed_def ex_io_def
        ex_os_def ex_monitor_def)

section \<open>The simulated GPU\<close>

text \<open>
  C8. When the GPU interface is unavailable (not installed, failing, or without a device)
  or its first device reports zero usage, and the draws of the random source are in
  \<open>[0, 1)\<close>, the stage sets GPU Usage to \<^verbatim>\<open>random.uniform(0.1, 5.0)\<close> rounded to two decimals,
  a value of \<open>[0.1, 5.0]\<close>, and GPU Temp to \<^verbatim>\<open>random.uniform(30, 45)\<close> rounded to one decimal,
  a value of \<open>[30, 45]\<close>; a successful sampling call returns both attributes with these
  values.
\<close>

theorem simulated_gpu:
  assumes "gpu_unavailable_or_idle (gpu_q os)"
    and "unit_draw (gpu_load_draw (gpu_q os))" and "unit_draw (gpu_temp_draw (gpu_q os))"
  shows "\<exists>usage temp.
           usage = py_round (uniform 0.1 5.0 (gpu_load_draw (gpu_q os))) 2
         \<and> temp = py_round (uniform 30 45 (gpu_temp_draw (gpu_q os))) 1
         \<and> 0.1 \<le> usage \<and> usage \<le> 5.0 \<and> 30 \<le> temp \<and> temp \<le> 45
         \<and> get_gpu_data (gpu_q os) ''GPU Usage (%)'' = Some (PyFloat usage)
         \<and> get_gpu_data (gpu_q os) key_gpu_temp = Some (PyFloat temp)
         \<and> (successful (fst (get_detailed_system_data os self)) \<longrightarrow>
               fst (get_detailed_system_data os self) ''GPU Usage (%)'' = Some (PyFloat usage)
             \<and> fst (get_detailed_system_data os self) key_gpu_temp = Some (PyFloat temp))"
proof -
  let ?u = "uniform 0.1 5.0 (gpu_load_draw (gpu_q os))"
  let ?t = "uniform 30 45 (gpu_temp_draw (gpu_q os))"
  have bu: "0.1 \<le> py_round ?u 2" "py_round ?u 2 \<le> 5.0"
    using uniform_bounds [OF assms(2), of "0.1" "5.0"]
      py_round_ge [of 10 2 ?u] py_round_le [of ?u 500 2]
    by simp_all
  have bt: "30 \<le> py_round ?t 1" "py_round ?t 1 \<le> 45"
    using uniform_bounds [OF assms(3), of 30 45]
      py_round_ge [of 300 1 ?t] py_round_le [of ?t 450 1]
    by simp_all
  have k: "''GPU Usage (%)'' \<in> gpu_keys" "key_gpu_temp \<in> gpu_keys"
    by (simp_all add: gpu_keys_def)
  show ?thesis
    using bu bt get_gpu_data_idle [OF assms(1)] snapshot_attrs(2) [OF _ k(1)] snapshot_attrs(2) [OF _ k(2)]
    by simp
qed

theorem simulated_gpu_witness:
  "gpu_unavailable_or_idle (gpu_q ex_os)
   \<and> unit_draw (gpu_load_draw (gpu_q ex_os)) \<and> unit_draw (gpu_temp_draw (gpu_q ex_os))
   \<and> successful (fst (get_detailed_system_data ex_os ex_monitor))
   \<and> fst (get_detailed_system_data ex_os ex_monitor) ''GPU Usage (%)'' = Some (PyFloat 2.55)
   \<and> fst (get_detailed_system_data ex_os ex_monitor) key_gpu_temp = Some (PyFloat 37.5)"
proof -
  have h: "gpu_unavailable_or_idle (gpu_q ex_os)"
    "unit_draw (gpu_load_draw (gpu_q ex_os))" "unit_draw (gpu_temp_draw (gpu_q ex_os))"
    by (simp_all add: gpu_unavailable_or_idle_def unit_draw_def ex_os_def ex_gpu_def)
  have v: "py_round (uniform 0.1 5.0 (gpu_load_draw (gpu_q ex_os))) 2 = 2.55"
    "py_round (uniform 30 45 (gpu_temp_draw (gpu_q ex_os))) 1 = 37.5"
    by (simp_all add: ex_os_def ex_gpu_def uniform_def py_round_def round_half_even_def)
  from simulated_gpu [OF h, of ex_monitor] ex_os_successful h v
  show ?thesis by simp
qed

section \<open>The top CPU process\<close>

text \<open>
  C2 fails on the code. With the readable processes \<open>idle\<close> at \<open>0\<close> percent and \<open>python\<close> at
  \<open>12.5\<close> percent (a third one vanished), the \<^verbatim>\<open>try\<close> computes \<^verbatim>\<open>"python (12.5%)"\<close> and stores
  it in \<^verbatim>\<open>top_cpu_proc\<close>, and the successful sampling call returns the attribute Top CPU
  Process with the value \<^verbatim>\<open>"N/A"\<close>.
\<close>

theorem top_cpu_process_is_always_NA:
  "process_iter (process_q ex_os) =
     Inr [Info \<lparr>p_name = ''idle'', p_cpu_percent = Some 0\<rparr>, Gone,
          Info \<lparr>p_name = ''python'', p_cpu_percent = Some 12.5\<rparr>]
   \<and> top_cpu_proc_assigned (process_iter (process_q ex_os)) =
       Some (PyFmt [Lit ''python'', Lit '' ('', NumF 12.5, Lit ''%)''])
   \<and> successful (fst (get_detailed_system_data ex_os ex_monitor))
   \<and> fst (get_detailed_system_data ex_os ex_monitor) ''Top CPU Process'' = Some (PyStr ''N/A'')"
proof -
  have p: "process_iter (process_q ex_os) =
     Inr [Info \<lparr>p_name = ''idle'', p_cpu_percent = Some 0\<rparr>, Gone,
          Info \<lparr>p_name = ''python'', p_cpu_percent = Some 12.5\<rparr>]"
    by (simp add: ex_os_def ex_process_def)
  have a: "top_cpu_proc_assigned (process_iter (process_q ex_os)) =
       Some (PyFmt [Lit ''python'', Lit '' ('', NumF 12.5, Lit ''%)''])"
    unfolding p by (simp add: top_cpu_proc_assigned_def sorted_cpu_def Let_def)
  have "\<not> stage_raises ex_os" by (rule ex_os_runs)
  then have "\<not> process_raises (process_q ex_os)" by (simp add: stage_raises_def)
  then obtain d where d: "get_process_data (process_q ex_os) = Inr d"
    using get_process_data_total by blast
  have "''Top CPU Process'' \<in> process_keys" by (simp add: process_keys_def)
  from snapshot_attrs(3) [OF ex_os_successful this] d get_process_data_Inr [OF d]
  have "fst (get_detailed_system_data ex_os ex_monitor) ''Top CPU Process'' = Some (PyStr ''N/A'')"
    by simp
  with p a ex_os_successful show ?thesis by simp
qed






section \<open>Failed sampling calls\<close>

text \<open>
  C10. No exception leaves a sampling call. Whenever a sub-stage raises, the body of the
  \<^verbatim>\<open>try\<close> ends with an exception \<open>e\<close>, and the call returns the dict whose only key is
  \<^verbatim>\<open>"Error"\<close>, with the string \<^verbatim>\<open>"Failed to collect data: "\<close> followed by the message of \<open>e\<close>.
\<close>

theorem failed_sample_is_error_dict:
  assumes "stage_raises os"
  shows "\<exists>e. fst (try_body os (time_time os) (time_time os - last_call_time self) self) = Inl e
           \<and> fst (get_detailed_system_data os self) =
               [''Error'' \<mapsto> PyStr (''Failed to collect data: '' @ exn_str e)]
           \<and> dom (fst (get_detailed_system_data os self)) = {''Error''}"
  using sample_raises [OF assms, of self] by auto

theorem failed_sample_is_error_dict_witness:
  "stage_raises ex_os_no_cpu
   \<and> (\<exists>e. fst (try_body ex_os_no_cpu (time_time ex_os_no_cpu)
                   (time_time ex_os_no_cpu - last_call_time ex_monitor) ex_monitor) = Inl e
           \<and> fst (get_detailed_system_data ex_os_no_cpu ex_monitor) =
               [''Error'' \<mapsto> PyStr (''Failed to collect data: '' @ exn_str e)]
           \<and> dom (fst (get_detailed_system_data ex_os_no_cpu ex_monitor)) = {''Error''})"
proof -
  have h: "stage_raises ex_os_no_cpu"
    by (simp add: stage_raises_def raises_before_io_def ex_os_no_cpu_def)
  show ?thesis using h failed_sample_is_error_dict [OF h, of ex_monitor] by simp
qed

text \<open>
  C1, as the code has it. If a sub-stage raises, the call is reported as failed. The
  collector is exactly what it was before the call when the stage that raises is the CPU,
  memory or sensor stage, or the rate stage at its first query (the disk counters); and the
  last timestamp is unchanged whenever the stage that raises is the rate stage or an
  earlier one.
\<close>

theorem failed_sample_rate_state:
  "(stage_raises os \<longrightarrow> \<not> successful (fst (get_detailed_system_data os self)))
   \<and> (raises_before_io os \<or> isl (disk_io_counters (io_q os)) \<longrightarrow>
        snd (get_detailed_system_data os self) = self)
   \<and> (raises_before_io os \<or> io_raises (io_q os) \<longrightarrow>
        last_call_time (snd (get_detailed_system_data os self)) = last_call_time self)"
proof (intro conjI impI)
  assume "stage_raises os"
  from sample_raises [OF this, of self]
  show "\<not> successful (fst (get_detailed_system_data os self))"
    by (auto simp: successful_def)
next
  let ?td = "time_time os - last_call_time self"
  assume a: "raises_before_io os \<or> isl (disk_io_counters (io_q os))"
  have "isl (disk_io_counters (io_q os)) \<Longrightarrow> snd (get_io_data (io_q os) ?td self) = self"
    by (cases "disk_io_counters (io_q os)") (simp_all add: get_io_data_def)
  with a show "snd (get_detailed_system_data os self) = self"
    using try_body_snd_cases [of os "time_time os" ?td self]
    by (auto simp: sample_snd io_raises_def)
next
  let ?td = "time_time os - last_call_time self"
  assume a: "raises_before_io os \<or> io_raises (io_q os)"
  have "io_raises (io_q os) \<Longrightarrow>
          last_call_time (snd (get_io_data (io_q os) ?td self)) = last_call_time self"
    by (simp add: get_io_data_def rate_mb_returns Let_def split: sum.splits)
  with a show "last_call_time (snd (get_detailed_system_data os self)) = last_call_time self"
    using try_body_snd_cases [of os "time_time os" ?td self]
    by (auto simp: sample_snd)
qed

theorem failed_sample_rate_state_witness:
  "(stage_raises ex_os_no_cpu \<and> \<not> successful (fst (get_detailed_system_data ex_os_no_cpu ex_monitor)))
   \<and> ((raises_before_io ex_os_no_cpu \<or> isl (disk_io_counters (io_q ex_os_no_cpu)))
        \<and> snd (get_detailed_system_data ex_os_no_cpu ex_monitor) = ex_monitor)
   \<and> ((raises_before_io ex_os_no_cpu \<or> io_raises (io_q ex_os_no_cpu))
        \<and> last_call_time (snd (get_detailed_system_data ex_os_no_cpu ex_monitor)) =
            last_call_time ex_monitor)"
proof -
  have h: "raises_before_io ex_os_no_cpu"
    by (simp add: raises_before_io_def ex_os_no_cpu_def)
  then have "stage_raises ex_os_no_cpu" by (simp add: stage_raises_def)
  then show ?thesis using h failed_sample_rate_state [of ex_os_no_cpu ex_monitor] by simp
qed

text \<open>
  C1 as stated fails: when \<^verbatim>\<open>num_fds()\<close> raises in the process stage, the call is reported
  as failed, but the rate stage has already run, and the last timestamp has moved from
  \<open>0\<close> to \<open>1\<close>.
\<close>

theorem failed_sample_advances_rate_state:
  "stage_raises ex_os_no_fds
   \<and> \<not> successful (fst (get_detailed_system_data ex_os_no_fds ex_monitor))
   \<and> last_call_time ex_monitor = 0
   \<and> last_call_time (snd (get_detailed_system_data ex_os_no_fds ex_monitor)) = 1
   \<and> snd (get_detailed_system_data ex_os_no_fds ex_monitor) \<noteq> ex_monitor"
proof -
  have r: "stage_raises ex_os_no_fds"
    using ex_os_no_fds_stages by (simp add: stage_raises_def)
  from sample_raises [OF r, of ex_monitor]
  have f: "\<not> successful (fst (get_detailed_system_data ex_os_no_fds ex_monitor))"
    by (auto simp: successful_def)
  have t: "last_call_time (snd (get_detailed_system_data ex_os_no_fds ex_monitor)) = 1"
    using try_body_snd_cases [of ex_os_no_fds "time_time ex_os_no_fds"
        "time_time ex_os_no_fds - last_call_time ex_monitor" ex_monitor] ex_os_no_fds_stages
    by (simp add: sample_snd) (simp add: ex_os_no_fds_def ex_os_def)
  have z: "last_call_time ex_monitor = 0" by (simp add: ex_monitor_def)
  from t z have "snd (get_detailed_system_data ex_os_no_fds ex_monitor) \<noteq> ex_monitor"
    by auto
  with r f t z show ?thesis by simp
qed

section \<open>The key set of a snapshot\<close>

text \<open>
  C3. On a collector built by \<^verbatim>\<open>__init__\<close> and used for any number of calls, two
  consecutive successful sampling calls return snapshots with the same key set, namely all
  the attribute names, whatever the two calls find (GPU interface present or not, sensors
  present or not).
\<close>

theorem snapshot_key_set_stable:
  assumes "SystemMonitor_init iq = Inr self0"
    and "self = calls oss self0"
    and "get_detailed_system_data os1 self = (d1, self1)"
    and "get_detailed_system_data os2 self1 = (d2, self2)"
    and "successful d1" and "successful d2"
  shows "dom d1 = snapshot_keys \<and> dom d2 = snapshot_keys \<and> dom d1 = dom d2"
proof -
  have i: "dom (system_info self) = static_keys"
    using assms(1,2) by (simp add: calls_system_info init_system_info)
  have "self1 = snd (get_detailed_system_data os1 self)" using assms(3) by simp
  then have i1: "dom (system_info self1) = static_keys"
    using i by (simp add: sample_system_info)
  have "dom d1 = snapshot_keys"
    using successful_dom [of os1 self] assms(3,5) i by simp
  moreover have "dom d2 = snapshot_keys"
    using successful_dom [of os2 self1] assms(4,6) i1 by simp
  ultimately show ?thesis by simp
qed

theorem snapshot_key_set_stable_witness:
  "SystemMonitor_init ex_init = Inr ex_monitor
   \<and> ex_monitor = calls [] ex_monitor
   \<and> successful (fst (get_detailed_system_data ex_os ex_monitor))
   \<and> successful (fst (get_detailed_system_data ex_os_gpu
                         (snd (get_detailed_system_data ex_os ex_monitor))))
   \<and> dom (fst (get_detailed_system_data ex_os ex_monitor)) = snapshot_keys
   \<and> dom (fst (get_detailed_system_data ex_os_gpu
                  (snd (get_detailed_system_data ex_os ex_monitor)))) = snapshot_keys
   \<and> dom (fst (get_detailed_system_data ex_os ex_monitor)) =
       dom (fst (get_detailed_system_data ex_os_gpu
                   (snd (get_detailed_system_data ex_os ex_monitor))))"
proof -
  let ?r1 = "get_detailed_system_data ex_os ex_monitor"
  let ?r2 = "get_detailed_system_data ex_os_gpu (snd ?r1)"
  have h1: "SystemMonitor_init ex_init = Inr ex_monitor" by (rule init_ex)
  have h2: "ex_monitor = calls [] ex_monitor" by simp
  have h3: "?r1 = (fst ?r1, snd ?r1)" by simp
  have h4: "?r2 = (fst ?r2, snd ?r2)" by simp
  have h5: "successful (fst ?r1)" by (rule ex_os_successful)
  have "dom (system_info (snd ?r1)) = static_keys"
    by (simp add: sample_system_info ex_monitor_static)
  then have h6: "successful (fst ?r2)"
    by (rule sample_succeeds [OF ex_os_gpu_runs])
  show ?thesis
    using h1 h5 h6 snapshot_key_set_stable [OF h1 h2 h3 h4 h5 h6] by simp
qed

end
